theory Spec2Isabelle
  imports Complex_Main "HOL-Library.Word" "HOL-Library.Monad_Syntax"
begin

unbundle bit_operations_syntax

section \<open>The session engine of the whack-a-mole game (src/src/main.ts, class WhackGame)\<close>

text \<open>
  The embedding follows the first, current version of \<open>main.ts\<close>. JavaScript numbers that
  only ever hold integers (level, score, combo, counters) are \<open>int\<close>; list positions are
  \<open>nat\<close>; every other number (times, durations, weights, ratios) is an exact \<open>real\<close>, so
  the rounding error of IEEE doubles is not part of the model. \<open>Math.random()\<close> is the
  sequence \<open>rng\<close> of the state, read at position \<open>rngCount\<close>. Sound, DOM, canvas drawing,
  the status line and the stored player profile are left out: no modelled field depends on them.
  A function that can throw in the source (a property read on the \<open>undefined\<close> that a
  level table yields outside levels 1 to 7) returns \<open>None\<close> for the throw.
\<close>

subsection \<open>Types\<close>

datatype MolePhase = Pop | Idle | Hit | Retreat

datatype MoleType = Normal | Gold | Bomb | Ice

datatype PromotionState = PromoNone | Pending | Grace

text \<open>\<open>LevelConfig\<close> and \<open>DifficultyProfile\<close> have the same six fields in the source.\<close>

record LevelConfig =
  grid :: int
  concurrentMin :: int
  concurrentMax :: int
  spawnIntervalMs :: real
  holdMinMs :: real
  holdMaxMs :: real

type_synonym DifficultyProfile = LevelConfig

text \<open>A cell without its pixel geometry.\<close>

record Cell =
  index :: nat
  row :: int
  col :: int

record ActiveMole =
  moleId :: int
  cellIndex :: nat
  moleType :: MoleType
  phase :: MolePhase
  phaseElapsedMs :: real
  spawnedAtMs :: real
  popDurationMs :: real
  idleDurationMs :: real
  hitDurationMs :: real
  retreatDurationMs :: real
  wasHit :: bool
  appearanceSprite :: "nat option"

record IntervalStats =
  hits :: int
  misses :: int
  reactionTotalMs :: real
  reactionCount :: int

record WhackGame =
  canvasWidth :: real
  canvasHeight :: real
  customCharacterCount :: nat
  cells :: "Cell list"
  isRunning :: bool
  isPaused :: bool
  isGameOver :: bool
  lastFrameMs :: real
  elapsedMs :: real
  nextCheckpointAtMs :: real
  nextSpawnAtMs :: real
  slowUntilMs :: real
  level :: int
  score :: int
  combo :: int
  bestCombo :: int
  timeRemainingMs :: real
  timeGaugeCapMs :: real
  tierProgress :: real
  skillEMA :: real
  promotionState :: PromotionState
  promotionTargetLevel :: "int option"
  promotionElapsedMs :: real
  levelEaseFromLevel :: "int option"
  levelEaseElapsedMs :: real
  levelEaseDurationMs :: real
  stageTransitionLockMs :: real
  stageFloorLevel :: int
  lowPiStreak :: int
  activeMoles :: "ActiveMole list"
  recentCellIndices :: "nat list"
  cellCooldownUntil :: "real list"
  moleSerial :: int
  intervalStats :: IntervalStats
  sessionHits :: int
  sessionMisses :: int
  rng :: "nat \<Rightarrow> real"
  rngCount :: nat

subsection \<open>Constants and tables\<close>

definition START_TIME_MS :: real where "START_TIME_MS = 45000"
definition MAX_TIME_MS :: real where "MAX_TIME_MS = 120000"
definition CHECKPOINT_MS :: real where "CHECKPOINT_MS = 5000"
definition CELL_COOLDOWN_MS :: real where "CELL_COOLDOWN_MS = 900"
definition PROMOTION_PENDING_MS :: real where "PROMOTION_PENDING_MS = 1500"
definition STAGE1_PROMOTION_PENDING_MS :: real where "STAGE1_PROMOTION_PENDING_MS = 1200"
definition PROMOTION_GRACE_BASE_MS :: real where "PROMOTION_GRACE_BASE_MS = 3000"
definition STAGE_TRANSITION_NOTICE_MS :: real where "STAGE_TRANSITION_NOTICE_MS = 1800"

definition STAGE_START_TIME_MS :: "int \<Rightarrow> real option" where
  "STAGE_START_TIME_MS l =
     (if l = 2 then Some 45000 else if l = 3 then Some 43000 else if l = 4 then Some 41000
      else if l = 5 then Some 39000 else if l = 6 then Some 37000 else if l = 7 then Some 35000
      else None)"

definition LEVEL_ENTRY_EASE_MS :: "int \<Rightarrow> real option" where
  "LEVEL_ENTRY_EASE_MS l =
     (if l = 2 then Some 14000 else if l = 3 then Some 10000 else if l = 4 then Some 8000
      else if l = 5 then Some 7000 else if l = 6 then Some 6000 else if l = 7 then Some 5000
      else None)"

definition PROMOTION_GRACE_MS_BY_LEVEL :: "int \<Rightarrow> real option" where
  "PROMOTION_GRACE_MS_BY_LEVEL l =
     (if l = 2 then Some 8000 else if l = 3 then Some 5000 else None)"

definition mkLevel :: "int \<Rightarrow> int \<Rightarrow> int \<Rightarrow> real \<Rightarrow> real \<Rightarrow> real \<Rightarrow> LevelConfig" where
  "mkLevel g cmin cmax si hmin hmax =
     \<lparr>grid = g, concurrentMin = cmin, concurrentMax = cmax,
      spawnIntervalMs = si, holdMinMs = hmin, holdMaxMs = hmax\<rparr>"

definition LEVEL_CONFIGS :: "int \<Rightarrow> LevelConfig option" where
  "LEVEL_CONFIGS l =
     (if l = 1 then Some (mkLevel 3 1 1 980 1200 1450)
      else if l = 2 then Some (mkLevel 4 1 2 820 930 1080)
      else if l = 3 then Some (mkLevel 5 1 2 760 860 980)
      else if l = 4 then Some (mkLevel 6 2 2 700 780 900)
      else if l = 5 then Some (mkLevel 7 2 3 640 720 820)
      else if l = 6 then Some (mkLevel 8 2 3 580 660 760)
      else if l = 7 then Some (mkLevel 9 3 3 520 620 700)
      else None)"

text \<open>\<open>Number.MAX_SAFE_INTEGER\<close> is \<open>2^53 - 1\<close>.\<close>

definition MIN_HITS_TO_LEVEL_UP :: "int \<Rightarrow> int option" where
  "MIN_HITS_TO_LEVEL_UP l =
     (if l = 1 then Some 3 else if l = 2 then Some 4 else if l = 3 then Some 5
      else if l = 4 then Some 6 else if l = 5 then Some 7 else if l = 6 then Some 8
      else if l = 7 then Some (2 ^ 53 - 1) else None)"

subsection \<open>Numeric helpers\<close>

definition clamp :: "'a::linorder \<Rightarrow> 'a \<Rightarrow> 'a \<Rightarrow> 'a" where
  "clamp v lo hi = min hi (max lo v)"

definition lerp :: "real \<Rightarrow> real \<Rightarrow> real \<Rightarrow> real" where
  "lerp from to t = from + (to - from) * clamp t 0 1"

definition smoothstep :: "real \<Rightarrow> real" where
  "smoothstep t = (let x = clamp t 0 1 in x * x * (3 - 2 * x))"

text \<open>\<open>Math.round\<close>: the nearest integer, a tie going up.\<close>

definition mathRound :: "real \<Rightarrow> int" where
  "mathRound x = \<lfloor>x + 1 / 2\<rfloor>"

text \<open>\<open>randomBetween\<close> and \<open>randomInt\<close>, given the value \<open>r\<close> that \<open>Math.random()\<close> returned.\<close>

definition randomBetween :: "real \<Rightarrow> real \<Rightarrow> real \<Rightarrow> real" where
  "randomBetween r lo hi = lo + r * (hi - lo)"

definition randomInt :: "real \<Rightarrow> int \<Rightarrow> int \<Rightarrow> int" where
  "randomInt r lo hi = \<lfloor>randomBetween r (of_int lo) (of_int (hi + 1))\<rfloor>"

definition nextRandom :: "WhackGame \<Rightarrow> real \<times> WhackGame" where
  "nextRandom s = (rng s (rngCount s), s\<lparr>rngCount := rngCount s + 1\<rparr>)"

subsection \<open>Results of functions that may throw\<close>

text \<open>
  Partial correctness of a function that may throw: \<open>owp m Q\<close> says that \<open>Q\<close> holds of the
  result when there is one. It is used to carry facts through \<open>setLevel\<close> and the checkpoint.
\<close>

definition owp :: "'a option \<Rightarrow> ('a \<Rightarrow> bool) \<Rightarrow> bool" where
  "owp m Q = (case m of None \<Rightarrow> True | Some x \<Rightarrow> Q x)"

lemma owp_Some [simp]: "owp (Some x) Q = Q x"
  by (simp add: owp_def)

lemma owp_None [simp]: "owp None Q = True"
  by (simp add: owp_def)

lemma owp_bind [simp]: "owp (Option.bind m f) Q = owp m (\<lambda>x. owp (f x) Q)"
  by (cases m) (simp_all add: owp_def)

lemma owp_if: "owp (if b then m else n) Q = (if b then owp m Q else owp n Q)"
  by simp

lemma owp_case_option:
  "owp (case x of None \<Rightarrow> a | Some y \<Rightarrow> b y) Q =
     (case x of None \<Rightarrow> owp a Q | Some y \<Rightarrow> owp (b y) Q)"
  by (cases x) simp_all

lemma owp_case_prod:
  "owp (case p of (a, b) \<Rightarrow> f a b) Q = (case p of (a, b) \<Rightarrow> owp (f a b) Q)"
  by (cases p) simp

lemma owpD: "owp m Q \<Longrightarrow> m = Some x \<Longrightarrow> Q x"
  by (simp add: owp_def)

lemma owpI: "(\<And>x. m = Some x \<Longrightarrow> Q x) \<Longrightarrow> owp m Q"
  by (cases m) simp_all

lemma owp_mono: "owp m Q \<Longrightarrow> (\<And>x. Q x \<Longrightarrow> R x) \<Longrightarrow> owp m R"
  by (cases m) simp_all

subsection \<open>Difficulty profile\<close>

definition getSlowFactor :: "WhackGame \<Rightarrow> real" where
  "getSlowFactor s = (if elapsedMs s < slowUntilMs s then 135 / 100 else 1)"

definition getPendingDurationMs :: "WhackGame \<Rightarrow> real" where
  "getPendingDurationMs s =
     (if level s = 1 then STAGE1_PROMOTION_PENDING_MS else PROMOTION_PENDING_MS)"

definition getPromotionGraceDurationMs :: "WhackGame \<Rightarrow> real" where
  "getPromotionGraceDurationMs s =
     (case PROMOTION_GRACE_MS_BY_LEVEL (level s) of
        Some ms \<Rightarrow> ms
      | None \<Rightarrow> PROMOTION_GRACE_BASE_MS)"

definition getLevelEntryEaseRatio :: "WhackGame \<Rightarrow> real" where
  "getLevelEntryEaseRatio s =
     (if levelEaseFromLevel s = None \<or> levelEaseDurationMs s \<le> 0 then 1
      else clamp (levelEaseElapsedMs s / levelEaseDurationMs s) 0 1)"

definition getTierBlendToNext :: "WhackGame \<Rightarrow> real" where
  "getTierBlendToNext s =
     (let progressBlend = clamp (tierProgress s / 100) 0 1;
          blend0 = progressBlend;
          blend1 = (if level s = 1
                    then (if progressBlend < 8 / 10 then progressBlend * (45 / 100)
                          else 36 / 100 + (progressBlend - 8 / 10) * (12 / 10))
                    else blend0);
          blend2 = (if promotionState s = Pending
                    then (let pendingBlend =
                                clamp (promotionElapsedMs s / getPendingDurationMs s) 0 1
                                  * (85 / 100)
                          in max blend1 pendingBlend)
                    else blend1);
          blend3 = (if promotionState s = Grace
                    then (let graceDurationMs = getPromotionGraceDurationMs s;
                              graceRatio =
                                1 - clamp (promotionElapsedMs s / graceDurationMs) 0 1
                          in min blend2 (35 / 100 + graceRatio * (15 / 100)))
                    else blend2)
      in clamp blend3 0 1)"

text \<open>
  \<open>getDifficultyProfile\<close>, in the four stages of the source: the blend of the current level
  toward the next one (with the override of level 1), the level-entry easing, the grace
  window, and the final clamps. Reading a field of \<open>LEVEL_CONFIGS[level]\<close> throws when the
  level has no entry; \<open>nextLevel\<close> is \<open>min 7 (level + 1)\<close>, and the entry level of the easing
  is looked up only while the easing runs.
\<close>

definition blendProfile :: "int \<Rightarrow> LevelConfig \<Rightarrow> LevelConfig \<Rightarrow> real \<Rightarrow> DifficultyProfile" where
  "blendProfile lvl current next blendToNext =
     \<lparr>grid = grid current,
      concurrentMin =
        (if lvl = 1 then 1
         else mathRound (lerp (of_int (concurrentMin current)) (of_int (concurrentMin next))
                           (blendToNext * (7 / 10)))),
      concurrentMax =
        (if lvl = 1 then 1
         else mathRound (lerp (of_int (concurrentMax current)) (of_int (concurrentMax next))
                           blendToNext)),
      spawnIntervalMs = lerp (spawnIntervalMs current) (spawnIntervalMs next) blendToNext,
      holdMinMs = lerp (holdMinMs current) (holdMinMs next) blendToNext,
      holdMaxMs = lerp (holdMaxMs current) (holdMaxMs next) blendToNext\<rparr>"

definition easeProfile :: "LevelConfig \<Rightarrow> real \<Rightarrow> DifficultyProfile \<Rightarrow> DifficultyProfile" where
  "easeProfile entryFrom ease p =
     p\<lparr>spawnIntervalMs := lerp (spawnIntervalMs entryFrom) (spawnIntervalMs p) ease,
       holdMinMs := lerp (holdMinMs entryFrom) (holdMinMs p) ease,
       holdMaxMs := lerp (holdMaxMs entryFrom) (holdMaxMs p) ease,
       concurrentMin := mathRound (lerp (of_int (concurrentMin entryFrom))
                                     (of_int (concurrentMin p)) (ease * (82 / 100))),
       concurrentMax := mathRound (lerp (of_int (concurrentMax entryFrom))
                                     (of_int (concurrentMax p)) (ease * (82 / 100)))\<rparr>"

definition graceProfile :: "DifficultyProfile \<Rightarrow> DifficultyProfile" where
  "graceProfile p =
     p\<lparr>spawnIntervalMs := spawnIntervalMs p * (108 / 100),
       holdMinMs := holdMinMs p * (112 / 100),
       holdMaxMs := holdMaxMs p * (112 / 100),
       concurrentMax := max 1 (concurrentMax p - 1)\<rparr>"

definition clampProfile :: "DifficultyProfile \<Rightarrow> DifficultyProfile" where
  "clampProfile p =
     (let cmin = clamp (concurrentMin p) 1 3
      in p\<lparr>concurrentMin := cmin, concurrentMax := clamp (concurrentMax p) cmin 3\<rparr>)"

definition getDifficultyProfile :: "WhackGame \<Rightarrow> DifficultyProfile option" where
  "getDifficultyProfile s =
     do {
       current \<leftarrow> LEVEL_CONFIGS (level s);
       next \<leftarrow> LEVEL_CONFIGS (min 7 (level s + 1));
       let blendToNext = (if level s = 7 then 0 else getTierBlendToNext s);
       let p0 = blendProfile (level s) current next blendToNext;
       let levelEntryEaseRatio = getLevelEntryEaseRatio s;
       p1 \<leftarrow> (if levelEaseFromLevel s \<noteq> None \<and> levelEntryEaseRatio < 1
              then do {
                     entryFrom \<leftarrow> LEVEL_CONFIGS (the (levelEaseFromLevel s));
                     Some (easeProfile entryFrom (smoothstep levelEntryEaseRatio) p0)
                   }
              else Some p0);
       let p2 = (if promotionState s = Grace then graceProfile p1 else p1);
       Some (clampProfile p2)
     }"

subsection \<open>Category lottery\<close>

definition startWeights :: "int \<Rightarrow> (real \<times> real \<times> real \<times> real) option" where
  "startWeights l =
     (if l = 1 then Some (94, 5, 1, 0) else if l = 2 then Some (82, 11, 7, 0)
      else if l = 3 then Some (78, 12, 9, 1) else if l = 4 then Some (74, 13, 11, 2)
      else if l = 5 then Some (71, 14, 12, 3) else if l = 6 then Some (68, 14, 14, 4)
      else if l = 7 then Some (66, 14, 15, 5) else None)"

definition endWeights :: "int \<Rightarrow> (real \<times> real \<times> real \<times> real) option" where
  "endWeights l =
     (if l = 1 then Some (89, 8, 3, 0) else if l = 2 then Some (76, 13, 10, 1)
      else if l = 3 then Some (72, 13, 12, 3) else if l = 4 then Some (68, 14, 14, 4)
      else if l = 5 then Some (65, 15, 15, 5) else if l = 6 then Some (62, 15, 17, 6)
      else if l = 7 then Some (60, 16, 18, 6) else None)"

text \<open>
  The weights \<open>pickMoleType\<close> hands to \<open>pickWeightedType\<close>, in the order normal, gold, bomb,
  ice. A level without an entry falls back to the entry of level 1 (\<open>??\<close> in the source).
\<close>

definition moleTypeWeights :: "WhackGame \<Rightarrow> (MoleType \<times> real) list" where
  "moleTypeWeights s =
     (let blend = getTierBlendToNext s;
          (sn, sg, sb, si) = (case startWeights (level s) of
                                Some w \<Rightarrow> w | None \<Rightarrow> (94, 5, 1, 0));
          (en, eg, eb, ei) = (case endWeights (level s) of
                                Some w \<Rightarrow> w | None \<Rightarrow> (89, 8, 3, 0));
          normal0 = lerp sn en blend;
          gold0 = lerp sg eg blend;
          bomb0 = lerp sb eb blend;
          ice0 = lerp si ei blend;
          levelEntryEaseRatio = getLevelEntryEaseRatio s;
          easing = (levelEaseFromLevel s \<noteq> None \<and> levelEntryEaseRatio < 1);
          safety = 1 - smoothstep levelEntryEaseRatio;
          normal1 = (if easing then normal0 + 8 * safety else normal0);
          gold1 = (if easing then gold0 * (1 - (16 / 100) * safety) else gold0);
          bomb1 = (if easing then bomb0 * (1 - (78 / 100) * safety) else bomb0);
          ice1 = (if easing then ice0 * (1 - (72 / 100) * safety) else ice0);
          grace = (promotionState s = Grace);
          bomb2 = (if grace then bomb1 * (25 / 100) else bomb1);
          ice2 = (if grace then ice1 * (5 / 10) else ice1);
          normal2 = (if grace then normal1 + 6 else normal1);
          pressed = (timeRemainingMs s \<le> 9000);
          bomb3 = (if pressed then bomb2 * (105 / 100) else bomb2);
          gold3 = (if pressed then gold1 * (112 / 100) else gold1)
      in [(Normal, max 1 normal2), (Gold, max (5 / 10) gold3),
          (Bomb, max (2 / 10) bomb3), (Ice, max 0 ice2)])"

text \<open>The loop of \<open>pickWeightedType\<close>; \<open>None\<close> when it runs off the end of the list.\<close>

fun pickWeightedLoop :: "real \<Rightarrow> (MoleType \<times> real) list \<Rightarrow> MoleType option" where
  "pickWeightedLoop roll [] = None"
| "pickWeightedLoop roll ((t, w) # ws) =
     (if roll - w \<le> 0 then Some t else pickWeightedLoop (roll - w) ws)"

text \<open>
  \<open>pickWeightedType\<close>, given the value \<open>r\<close> of \<open>Math.random()\<close>. After the loop the source
  reads \<open>weights[weights.length - 1][0]\<close>, which throws on an empty list.
\<close>

definition pickWeightedType :: "real \<Rightarrow> (MoleType \<times> real) list \<Rightarrow> MoleType option" where
  "pickWeightedType r weights =
     (let total = foldl (\<lambda>sum (t, weight). sum + weight) 0 weights;
          roll = r * total
      in case pickWeightedLoop roll weights of
           Some t \<Rightarrow> Some t
         | None \<Rightarrow> (if weights = [] then None else Some (fst (last weights))))"

definition pickMoleType :: "WhackGame \<Rightarrow> (MoleType \<times> WhackGame) option" where
  "pickMoleType s =
     (let (r, s1) = nextRandom s
      in case pickWeightedType r (moleTypeWeights s) of
           None \<Rightarrow> None
         | Some t \<Rightarrow> Some (t, s1))"

definition pickAppearanceSprite :: "WhackGame \<Rightarrow> nat option \<times> WhackGame" where
  "pickAppearanceSprite s =
     (if customCharacterCount s = 0 then (None, s)
      else (let (r, s1) = nextRandom s
            in (Some (nat (randomInt r 0 (int (customCharacterCount s) - 1))), s1)))"

subsection \<open>Spawn scheduler\<close>

text \<open>
  The comparator of \<open>getUnlockedSpawnCellSet\<close> orders cells by Manhattan distance from the
  centre, then by a 32-bit hash of row and column. \<open>Array.prototype.sort\<close> is stable, and so
  is \<open>sort_key\<close>: sorting by the hash first and by the distance second gives that order.
\<close>

definition cellHash :: "Cell \<Rightarrow> nat" where
  "cellHash c =
     unat ((word_of_int (row c * 73856093) :: 32 word) XOR word_of_int (col c * 19349663))"

definition cellDistance :: "real \<Rightarrow> Cell \<Rightarrow> real" where
  "cellDistance center c = \<bar>of_int (row c) - center\<bar> + \<bar>of_int (col c) - center\<bar>"

text \<open>
  \<open>getUnlockedSpawnCellSet\<close>: \<open>None\<close> is a throw, \<open>Some None\<close> is \<open>null\<close> (no restriction),
  \<open>Some (Some is)\<close> the unlocked cell indices.
\<close>

definition getUnlockedSpawnCellSet :: "WhackGame \<Rightarrow> nat list option option" where
  "getUnlockedSpawnCellSet s =
     (if levelEaseFromLevel s = None \<or> levelEaseDurationMs s \<le> 0 \<or> cells s = []
         \<or> level s \<le> the (levelEaseFromLevel s)
      then Some None
      else (case LEVEL_CONFIGS (the (levelEaseFromLevel s)) of
              None \<Rightarrow> None
            | Some fromConfig \<Rightarrow>
           (case LEVEL_CONFIGS (level s) of
              None \<Rightarrow> None
            | Some currentConfig \<Rightarrow>
           (let fromGrid = grid fromConfig;
                currentGrid = grid currentConfig
            in if currentGrid \<le> fromGrid then Some None
               else (let easeRatio = getLevelEntryEaseRatio s
                     in if easeRatio \<ge> 999 / 1000 then Some None
                        else (let totalCells = int (length (cells s));
                                  startCells = clamp (fromGrid * fromGrid) 1 totalCells;
                                  unlockedCells =
                                    clamp (mathRound (lerp (of_int startCells) (of_int totalCells)
                                                        (smoothstep easeRatio)))
                                      1 totalCells;
                                  center = (of_int currentGrid - 1) / 2;
                                  ranked = sort_key (cellDistance center)
                                             (sort_key cellHash (cells s))
                              in Some (Some (map index (take (nat unlockedCells) ranked)))))))))"

text \<open>\<open>cellCooldownUntil[i] ?? 0\<close>, and the write \<open>cellCooldownUntil[i] = v\<close>, which extends
  a JavaScript array that is too short (the holes read as 0 through \<open>??\<close>).\<close>

definition cooldownAt :: "real list \<Rightarrow> nat \<Rightarrow> real" where
  "cooldownAt cd i = (if i < length cd then cd ! i else 0)"

definition arraySet :: "real list \<Rightarrow> nat \<Rightarrow> real \<Rightarrow> real list" where
  "arraySet cd i v =
     (if i < length cd then cd[i := v] else cd @ replicate (i - length cd) 0 @ [v])"

text \<open>The cascade of candidate filters of \<open>spawnSingleMole\<close>.\<close>

definition spawnCandidates :: "WhackGame \<Rightarrow> nat list option \<Rightarrow> nat list" where
  "spawnCandidates s unlockedCellSet =
     (let occupied = set (map cellIndex (activeMoles s));
          desiredRecentAvoid = drop (length (recentCellIndices s) - 3) (recentCellIndices s);
          isUnlocked = (\<lambda>c. case unlockedCellSet of
                               None \<Rightarrow> True | Some u \<Rightarrow> index c \<in> set u);
          free = (\<lambda>c. index c \<notin> occupied);
          cooled = (\<lambda>c. elapsedMs s \<ge> cooldownAt (cellCooldownUntil s) (index c));
          fresh = (\<lambda>c. index c \<notin> set desiredRecentAvoid);
          c1 = map index (filter fresh (filter cooled (filter free (filter isUnlocked (cells s)))));
          c2 = (if c1 = []
                then map index (filter cooled (filter free (filter isUnlocked (cells s))))
                else c1);
          c3 = (if c2 = [] then map index (filter free (filter isUnlocked (cells s))) else c2);
          c4 = (if c3 = [] \<and> unlockedCellSet \<noteq> None
                then map index (filter cooled (filter free (cells s)))
                else c3);
          c5 = (if c4 = [] \<and> unlockedCellSet \<noteq> None
                then map index (filter free (cells s))
                else c4)
      in c5)"

text \<open>The exposure scale of a new mole of category \<open>ty\<close>.\<close>

definition idleScaleFor :: "MoleType \<Rightarrow> WhackGame \<Rightarrow> real" where
  "idleScaleFor ty s =
     (let idleScale0 = (if ty = Gold then 76 / 100 else 1);
          idleScale1 = (if ty = Ice then 9 / 10 else idleScale0)
      in if getSlowFactor s > 1 then idleScale1 * (12 / 10) else idleScale1)"

text \<open>The object literal \<open>newMole\<close>: four durations and the appearance are drawn in order.\<close>

definition buildMole ::
  "DifficultyProfile \<Rightarrow> nat \<Rightarrow> MoleType \<Rightarrow> WhackGame \<Rightarrow> ActiveMole \<times> WhackGame" where
  "buildMole profile cellIdx ty s =
     (let idleScale = idleScaleFor ty s;
          (rPop, sa) = nextRandom s;
          (rIdle, sb) = nextRandom sa;
          (rHit, sc) = nextRandom sb;
          (rRetreat, sd) = nextRandom sc;
          (sprite, se) = pickAppearanceSprite sd
      in (\<lparr>moleId = moleSerial s, cellIndex = cellIdx, moleType = ty, phase = Pop,
            phaseElapsedMs = 0, spawnedAtMs = elapsedMs s,
            popDurationMs = randomBetween rPop 120 170,
            idleDurationMs =
              randomBetween rIdle (holdMinMs profile) (holdMaxMs profile) * idleScale,
            hitDurationMs = randomBetween rHit 130 180,
            retreatDurationMs = randomBetween rRetreat 100 150,
            wasHit = False, appearanceSprite = sprite\<rparr>, se))"

text \<open>The bookkeeping after the literal: serial, active list, cooldown, recent cells.\<close>

definition pushMole :: "ActiveMole \<Rightarrow> WhackGame \<Rightarrow> WhackGame" where
  "pushMole newMole s =
     (let recent = recentCellIndices s @ [cellIndex newMole]
      in s\<lparr>moleSerial := moleSerial s + 1,
           activeMoles := activeMoles s @ [newMole],
           cellCooldownUntil :=
             arraySet (cellCooldownUntil s) (cellIndex newMole) (elapsedMs s + CELL_COOLDOWN_MS),
           recentCellIndices := (if length recent > 6 then tl recent else recent)\<rparr>)"

text \<open>
  \<open>spawnSingleMole\<close>. The result is \<open>None\<close> for a throw, or the returned flag with the new
  state. \<open>Math.random()\<close> is read in the source's order: the cell, the category, then the
  pop, idle, hit and retreat durations, then the appearance. An index outside the candidate
  list cannot come from a \<open>Math.random()\<close> in [0, 1); the model gives \<open>None\<close> there.
\<close>

definition spawnSingleMole :: "DifficultyProfile \<Rightarrow> WhackGame \<Rightarrow> (bool \<times> WhackGame) option" where
  "spawnSingleMole profile s =
     do {
       unlockedCellSet \<leftarrow> getUnlockedSpawnCellSet s;
       let candidates = spawnCandidates s unlockedCellSet;
       if candidates = [] then Some (False, s)
       else do {
         let concurrencyFloor = concurrentMin profile;
         let s1 = (if int (length (activeMoles s)) < concurrencyFloor - 1
                   then s\<lparr>nextSpawnAtMs := elapsedMs s\<rparr> else s);
         let (r1, s2) = nextRandom s1;
         let pick = randomInt r1 0 (int (length candidates) - 1);
         if pick < 0 \<or> pick \<ge> int (length candidates) then None
         else do {
           (ty, s3) \<leftarrow> pickMoleType s2;
           let (newMole, s4) = buildMole profile (candidates ! nat pick) ty s3;
           Some (True, pushMole newMole s4)
         }
       }
     }"

text \<open>
  The loop of \<open>spawnMolesIfNeeded\<close>: it runs while the spawn time is due and the number of
  active moles is below the ceiling of the profile computed before the loop.
\<close>

lemma nextRandom_activeMoles: "nextRandom s = (r, s') \<Longrightarrow> activeMoles s' = activeMoles s"
  by (auto simp: nextRandom_def)

lemma pickMoleType_activeMoles:
  "owp (pickMoleType s) (\<lambda>(t, s'). activeMoles s' = activeMoles s)"
  by (simp add: pickMoleType_def nextRandom_def Let_def owp_case_option split: option.split)

lemma buildMole_activeMoles:
  "buildMole profile c t s = (m, s') \<Longrightarrow> activeMoles s' = activeMoles s"
  by (auto simp: buildMole_def nextRandom_def pickAppearanceSprite_def Let_def
        split: prod.splits if_splits)

lemma pushMole_length: "length (activeMoles (pushMole m s)) = Suc (length (activeMoles s))"
  by (simp add: pushMole_def Let_def)

lemma spawnSingleMole_length_owp:
  "owp (spawnSingleMole profile s)
     (\<lambda>(b, s'). b \<longrightarrow> length (activeMoles s') = Suc (length (activeMoles s)))"
  unfolding spawnSingleMole_def
  apply (simp add: Let_def owp_if owp_case_prod split: prod.split)
  apply (intro conjI impI)
   apply (rule owpI, clarsimp)
   apply (rule owp_mono [OF pickMoleType_activeMoles])
   apply (clarsimp simp: pushMole_length dest!: nextRandom_activeMoles buildMole_activeMoles)
  apply (rule owpI, clarsimp)
  apply (rule owp_mono [OF pickMoleType_activeMoles])
  apply (clarsimp simp: pushMole_length dest!: nextRandom_activeMoles buildMole_activeMoles)
  done

lemma spawnSingleMole_length:
  assumes "spawnSingleMole profile s = Some (True, s')"
  shows "length (activeMoles s') = Suc (length (activeMoles s))"
  using owpD [OF spawnSingleMole_length_owp assms] by simp

function spawnLoop :: "DifficultyProfile \<Rightarrow> WhackGame \<Rightarrow> WhackGame option" where
  "spawnLoop profile s =
     (if elapsedMs s \<ge> nextSpawnAtMs s \<and> int (length (activeMoles s)) < concurrentMax profile
      then (case spawnSingleMole profile s of
              None \<Rightarrow> None
            | Some (didSpawn, s1) \<Rightarrow>
                if \<not> didSpawn then Some (s1\<lparr>nextSpawnAtMs := elapsedMs s1 + 120\<rparr>)
                else (let slowFactor = getSlowFactor s1;
                          (r, s2) = nextRandom s1;
                          nextInterval =
                            randomBetween r (spawnIntervalMs profile * (88 / 100))
                              (spawnIntervalMs profile * (112 / 100)) * slowFactor
                      in spawnLoop profile (s2\<lparr>nextSpawnAtMs := nextSpawnAtMs s2 + nextInterval\<rparr>)))
      else Some s)"
  by pat_completeness auto
termination
proof (relation "measure (\<lambda>(profile, s). nat (concurrentMax profile - int (length (activeMoles s))))")
  show "wf (measure (\<lambda>(profile, s). nat (concurrentMax profile - int (length (activeMoles s)))))"
    by simp
next
  fix profile s x2 didSpawn s1 slowFactor p r s2 nextInterval
  assume a: "nextSpawnAtMs s \<le> elapsedMs s \<and> int (length (activeMoles s)) < concurrentMax profile"
    and b: "spawnSingleMole profile s = Some x2" "(didSpawn, s1) = x2" "\<not> \<not> didSpawn"
    and c: "p = nextRandom s1" "(r, s2) = p"
  from b have "spawnSingleMole profile s = Some (True, s1)" by auto
  then have "length (activeMoles s1) = Suc (length (activeMoles s))"
    by (rule spawnSingleMole_length)
  moreover from c have "nextRandom s1 = (r, s2)" by simp
  then have "activeMoles s2 = activeMoles s1"
    by (rule nextRandom_activeMoles)
  ultimately show "((profile, s2\<lparr>nextSpawnAtMs := nextSpawnAtMs s2 + nextInterval\<rparr>), profile, s)
       \<in> measure (\<lambda>(profile, s). nat (concurrentMax profile - int (length (activeMoles s))))"
    using a by simp
qed

declare spawnLoop.simps [simp del]

definition spawnMolesIfNeeded :: "WhackGame \<Rightarrow> WhackGame option" where
  "spawnMolesIfNeeded s =
     (if cells s = [] then Some s
      else (case getDifficultyProfile s of
              None \<Rightarrow> None
            | Some profile \<Rightarrow> spawnLoop profile s))"

subsection \<open>Scoring and combo\<close>

definition registerMiss :: "WhackGame \<Rightarrow> WhackGame" where
  "registerMiss s =
     s\<lparr>combo := 0,
       intervalStats := (intervalStats s)\<lparr>misses := misses (intervalStats s) + 1\<rparr>,
       sessionMisses := sessionMisses s + 1\<rparr>"

definition getComboMultiplier :: "int \<Rightarrow> real" where
  "getComboMultiplier c =
     (if c \<ge> 15 then 2 else if c \<ge> 10 then 15 / 10 else if c \<ge> 5 then 12 / 10 else 1)"

text \<open>
  \<open>registerHit\<close> on the mole at position \<open>i\<close> of \<open>activeMoles\<close> (the source gets a reference
  to that object, which it mutates in place).
\<close>

definition registerHit :: "nat \<Rightarrow> WhackGame \<Rightarrow> WhackGame" where
  "registerHit i s =
     (let mole = activeMoles s ! i
      in if \<not> (phase mole = Pop \<or> phase mole = Idle) then s
         else
     (let mole1 = mole\<lparr>phase := Hit, phaseElapsedMs := 0, wasHit := True\<rparr>;
          ty = moleType mole;
          scoreDelta0 = (if ty = Gold then 3 else (1::int));
          scoreDelta1 = (if ty = Bomb then - 3 else scoreDelta0);
          timeDeltaMs = (if ty = Bomb then - 2000 else (0::real));
          comboA = (if ty = Bomb then 0 else combo s);
          scoreDelta = (if ty = Ice then 1 else scoreDelta1);
          slowUntil = (if ty = Ice then max (slowUntilMs s) (elapsedMs s + 2000)
                       else slowUntilMs s);
          nextCombo = (if ty = Bomb then 0 else comboA + 1);
          multiplier = (if scoreDelta > 0 then getComboMultiplier nextCombo else 1);
          reaction = max 0 (elapsedMs s - spawnedAtMs mole);
          stats = intervalStats s
      in s\<lparr>activeMoles := (activeMoles s)[i := mole1],
           slowUntilMs := slowUntil,
           combo := nextCombo,
           bestCombo := max (bestCombo s) nextCombo,
           score := max 0 (score s + mathRound (of_int scoreDelta * multiplier)),
           timeRemainingMs := clamp (timeRemainingMs s + timeDeltaMs) 0 MAX_TIME_MS,
           intervalStats := stats\<lparr>hits := hits stats + 1,
                                    reactionTotalMs := reactionTotalMs stats + reaction,
                                    reactionCount := reactionCount stats + 1\<rparr>,
           sessionHits := sessionHits s + 1\<rparr>))"

subsection \<open>Target lifecycle\<close>

text \<open>
  One pass of the body of the loop of \<open>updateMoles\<close> for one mole: the mole afterwards
  (\<open>None\<close> when it is spliced out) and the state after a possible timeout miss.
\<close>

definition stepMole :: "real \<Rightarrow> ActiveMole \<Rightarrow> WhackGame \<Rightarrow> ActiveMole option \<times> WhackGame" where
  "stepMole deltaMs mole0 s =
     (let mole = mole0\<lparr>phaseElapsedMs := phaseElapsedMs mole0 + deltaMs\<rparr>
      in if phase mole = Pop \<and> phaseElapsedMs mole \<ge> popDurationMs mole
         then (Some (mole\<lparr>phase := Idle, phaseElapsedMs := 0\<rparr>), s)
         else if phase mole = Idle \<and> phaseElapsedMs mole \<ge> idleDurationMs mole
         then (Some (mole\<lparr>phase := Retreat, phaseElapsedMs := 0\<rparr>),
               if \<not> wasHit mole then registerMiss s else s)
         else if phase mole = Hit \<and> phaseElapsedMs mole \<ge> hitDurationMs mole
         then (Some (mole\<lparr>phase := Retreat, phaseElapsedMs := 0\<rparr>), s)
         else if phase mole = Retreat \<and> phaseElapsedMs mole \<ge> retreatDurationMs mole
         then (None, s)
         else (Some mole, s))"

text \<open>The loop runs from the last mole to the first, so the tail is stepped before the head.\<close>

fun updateMolesList :: "real \<Rightarrow> ActiveMole list \<Rightarrow> WhackGame \<Rightarrow> ActiveMole list \<times> WhackGame" where
  "updateMolesList deltaMs [] s = ([], s)"
| "updateMolesList deltaMs (m # ms) s =
     (let (ms', s1) = updateMolesList deltaMs ms s;
          (m', s2) = stepMole deltaMs m s1
      in (case m' of None \<Rightarrow> ms' | Some m1 \<Rightarrow> m1 # ms', s2))"

definition updateMoles :: "real \<Rightarrow> WhackGame \<Rightarrow> WhackGame" where
  "updateMoles deltaMs s =
     (let (ms', s1) = updateMolesList deltaMs (activeMoles s) s
      in s1\<lparr>activeMoles := ms'\<rparr>)"

subsection \<open>Level changes and the stage transition\<close>

text \<open>
  \<open>refreshCells\<close>: the cells of the grid of the current level, row by row; moles and recent
  indices beyond the new grid are dropped and the cooldowns reset.
\<close>

definition gridCells :: "nat \<Rightarrow> Cell list" where
  "gridCells g =
     concat (map (\<lambda>r. map (\<lambda>c. \<lparr>index = r * g + c, row = int r, col = int c\<rparr>) [0..<g]) [0..<g])"

definition refreshCells :: "WhackGame \<Rightarrow> WhackGame option" where
  "refreshCells s =
     (if canvasWidth s = 0 \<or> canvasHeight s = 0 then Some s
      else (case LEVEL_CONFIGS (level s) of
              None \<Rightarrow> None
            | Some config \<Rightarrow>
                (let nextCells = gridCells (nat (grid config))
                 in Some (s\<lparr>cells := nextCells,
                            activeMoles :=
                              filter (\<lambda>m. cellIndex m < length nextCells) (activeMoles s),
                            recentCellIndices :=
                              filter (\<lambda>i. i < length nextCells) (recentCellIndices s),
                            cellCooldownUntil := replicate (length nextCells) 0\<rparr>))))"

definition setLevel :: "int \<Rightarrow> WhackGame \<Rightarrow> WhackGame option" where
  "setLevel nextLevel s =
     (let clamped = clamp nextLevel 1 7
      in if clamped = level s then Some s
         else
     (let previous = level s;
          s1 = s\<lparr>level := clamped, activeMoles := [], recentCellIndices := [],
                 nextSpawnAtMs := elapsedMs s + 180, levelEaseFromLevel := None,
                 levelEaseElapsedMs := 0, levelEaseDurationMs := 0\<rparr>;
          s2 = (if level s1 > previous
                then (let s1a = s1\<lparr>stageFloorLevel := max (stageFloorLevel s1) (level s1)\<rparr>;
                          easeDurationMs = (case LEVEL_ENTRY_EASE_MS (level s1a) of
                                              Some ms \<Rightarrow> ms | None \<Rightarrow> 0)
                      in if easeDurationMs > 0
                         then s1a\<lparr>levelEaseFromLevel := Some previous,
                                  levelEaseDurationMs := easeDurationMs\<rparr>
                         else s1a)
                else s1)
      in do {
           s3 \<leftarrow> refreshCells s2;
           _ \<leftarrow> LEVEL_CONFIGS (level s3);
           Some (if level s3 > previous
                 then s3\<lparr>tierProgress := min (tierProgress s3) 24\<rparr>
                 else s3\<lparr>tierProgress := max (tierProgress s3) 58\<rparr>)
         }))"

definition startPromotion :: "int \<Rightarrow> WhackGame \<Rightarrow> WhackGame" where
  "startPromotion nextLevel s =
     (if promotionState s \<noteq> PromoNone then s
      else s\<lparr>promotionState := Pending,
             promotionTargetLevel := Some (clamp nextLevel 1 7),
             tierProgress := max (tierProgress s) 88,
             promotionElapsedMs := 0\<rparr>)"

definition resetTimeForStageStart :: "int \<Rightarrow> WhackGame \<Rightarrow> real \<times> WhackGame" where
  "resetTimeForStageStart targetLevel s =
     (let stageStartMs = clamp (case STAGE_START_TIME_MS targetLevel of
                                  Some ms \<Rightarrow> ms | None \<Rightarrow> START_TIME_MS) 1000 MAX_TIME_MS
      in (stageStartMs, s\<lparr>timeRemainingMs := stageStartMs, timeGaugeCapMs := stageStartMs\<rparr>))"

definition beginStageTransitionNotice :: "WhackGame \<Rightarrow> WhackGame" where
  "beginStageTransitionNotice s =
     s\<lparr>activeMoles := [], recentCellIndices := [],
       nextSpawnAtMs := elapsedMs s + STAGE_TRANSITION_NOTICE_MS + 180,
       stageTransitionLockMs := STAGE_TRANSITION_NOTICE_MS\<rparr>"

definition cancelPromotion :: "WhackGame \<Rightarrow> WhackGame" where
  "cancelPromotion s =
     (if promotionState s \<noteq> Pending then s
      else s\<lparr>promotionState := PromoNone, promotionTargetLevel := None,
             promotionElapsedMs := 0\<rparr>)"

definition updatePromotionState :: "real \<Rightarrow> WhackGame \<Rightarrow> WhackGame option" where
  "updatePromotionState deltaMs s =
     (if promotionState s = PromoNone then Some s
      else
     (let s1 = s\<lparr>promotionElapsedMs := promotionElapsedMs s + deltaMs\<rparr>
      in if promotionState s1 = Pending \<and> promotionElapsedMs s1 \<ge> getPendingDurationMs s1
         then (let targetLevel = (case promotionTargetLevel s1 of
                                    Some l \<Rightarrow> l | None \<Rightarrow> level s1 + 1)
               in do {
                    s2 \<leftarrow> setLevel targetLevel s1;
                    let (resetMs, s3) = resetTimeForStageStart targetLevel s2;
                    Some (beginStageTransitionNotice
                            (s3\<lparr>promotionState := Grace, promotionElapsedMs := 0\<rparr>))
                  })
         else if promotionState s1 = Grace
                 \<and> promotionElapsedMs s1 \<ge> getPromotionGraceDurationMs s1
         then Some (s1\<lparr>promotionState := PromoNone, promotionTargetLevel := None,
                       promotionElapsedMs := 0\<rparr>)
         else Some s1))"

definition updateStageTransitionLock :: "real \<Rightarrow> WhackGame \<Rightarrow> WhackGame" where
  "updateStageTransitionLock deltaMs s =
     (if stageTransitionLockMs s \<le> 0 then s
      else s\<lparr>stageTransitionLockMs := max 0 (stageTransitionLockMs s - deltaMs)\<rparr>)"

definition updateLevelEntryEase :: "real \<Rightarrow> WhackGame \<Rightarrow> WhackGame" where
  "updateLevelEntryEase deltaMs s =
     (if levelEaseFromLevel s = None \<or> levelEaseDurationMs s \<le> 0 then s
      else
     (let s1 = s\<lparr>levelEaseElapsedMs :=
                    min (levelEaseElapsedMs s + deltaMs) (levelEaseDurationMs s)\<rparr>
      in if levelEaseElapsedMs s1 \<ge> levelEaseDurationMs s1
         then s1\<lparr>levelEaseFromLevel := None, levelEaseElapsedMs := 0, levelEaseDurationMs := 0\<rparr>
         else s1))"

subsection \<open>Checkpoints\<close>

definition getTargetPiForLevel :: "int \<Rightarrow> real" where
  "getTargetPiForLevel l =
     (if l = 1 then 42 / 100 else if l = 2 then 53 / 100 else if l = 3 then 57 / 100
      else if l = 4 then 61 / 100 else if l = 5 then 65 / 100 else if l = 6 then 69 / 100
      else if l = 7 then 72 / 100 else 6 / 10)"

text \<open>The three terms and the performance index that \<open>evaluateCheckpoint\<close> computes first.\<close>

definition checkpointAccuracy :: "WhackGame \<Rightarrow> real" where
  "checkpointAccuracy s =
     (let h = hits (intervalStats s); m = misses (intervalStats s); attempts = h + m
      in if attempts > 0 then of_int h / of_int attempts else 0)"

definition checkpointSpeed :: "WhackGame \<Rightarrow> real" where
  "checkpointSpeed s =
     (let avgReactionMs =
            (if reactionCount (intervalStats s) \<noteq> 0
             then reactionTotalMs (intervalStats s) / of_int (reactionCount (intervalStats s))
             else 900)
      in clamp (1 - avgReactionMs / 900) 0 1)"

definition checkpointComboMetric :: "WhackGame \<Rightarrow> real" where
  "checkpointComboMetric s = clamp (of_int (combo s) / 20) 0 1"

definition checkpointPi :: "WhackGame \<Rightarrow> real" where
  "checkpointPi s =
     45 / 100 * checkpointAccuracy s + 35 / 100 * checkpointSpeed s
       + 2 / 10 * checkpointComboMetric s"

text \<open>
  \<open>evaluateCheckpoint\<close>, stage by stage in the order of the source. \<open>h\<close> and \<open>m\<close> are the
  hits and misses of the interval, \<open>perf\<close> the performance index (\<open>pi\<close> in the source) and \<open>targetPi\<close> the target of
  the level, all four read once at the start.
\<close>

definition checkpointProgress :: "real \<Rightarrow> real \<Rightarrow> int \<Rightarrow> int \<Rightarrow> WhackGame \<Rightarrow> WhackGame" where
  "checkpointProgress perf targetPi h m s =
     (let skill = lerp (skillEMA s) perf (25 / 100);
          passiveRamp = (if level s = 1 then (if perf \<ge> 34 / 100 then 25 / 10 else 11 / 10)
                         else 8 / 10);
          performanceScale = (if level s = 1 then 22 else 32);
          performanceDelta = (skill - targetPi) * performanceScale;
          hitMomentum = clamp (of_int (h - m) * (if level s = 1 then 14 / 10 else 11 / 10))
                          (- 8) 10;
          progressDelta0 = clamp (passiveRamp + performanceDelta + hitMomentum) (- 14) 16;
          progressDelta1 = (if h + m = 0 then - 2 else progressDelta0);
          progressDelta = (if promotionState s = Pending then progressDelta1 * (45 / 100)
                           else progressDelta1)
      in s\<lparr>skillEMA := skill, tierProgress := clamp (tierProgress s + progressDelta) 0 100\<rparr>)"

definition checkpointBonusMs :: "real \<Rightarrow> int \<Rightarrow> int \<Rightarrow> real" where
  "checkpointBonusMs perf h m =
     (if perf \<ge> 88 / 100 then 5000 else if perf \<ge> 75 / 100 then 3000 else 0)
       + (if h > 0 \<and> m = 0 then 1000 else 0)"

definition checkpointBonus :: "real \<Rightarrow> WhackGame \<Rightarrow> WhackGame" where
  "checkpointBonus bonusMs s =
     (if bonusMs > 0
      then (let t = min MAX_TIME_MS (timeRemainingMs s + bonusMs)
            in s\<lparr>timeRemainingMs := t, timeGaugeCapMs := max (timeGaugeCapMs s) t\<rparr>)
      else s)"

definition checkpointStreak :: "real \<Rightarrow> WhackGame \<Rightarrow> WhackGame" where
  "checkpointStreak perf s =
     (if perf < 4 / 10 then s\<lparr>lowPiStreak := lowPiStreak s + 1\<rparr> else s\<lparr>lowPiStreak := 0\<rparr>)"

definition checkpointCancel :: "real \<Rightarrow> int \<Rightarrow> int \<Rightarrow> WhackGame \<Rightarrow> WhackGame" where
  "checkpointCancel targetPi h m s =
     (if promotionState s = Pending \<and> level s > 1 \<and> skillEMA s < targetPi - 8 / 100 \<and> m > h
      then cancelPromotion s else s)"

text \<open>
  In the source \<open>MIN_HITS_TO_LEVEL_UP[level] - 1\<close> is \<open>NaN\<close> for a level without an entry,
  and \<open>hits >= NaN\<close> is false: the \<open>None\<close> of \<open>requiredHits\<close>.
\<close>

definition checkpointPromote :: "real \<Rightarrow> int \<Rightarrow> WhackGame \<Rightarrow> WhackGame" where
  "checkpointPromote targetPi h s =
     (let requiredHits = (if level s = 1 then Some 1
                          else map_option (\<lambda>n. max 2 (n - 1)) (MIN_HITS_TO_LEVEL_UP (level s)));
          requiredProgress = (if level s = 1 then 66 else 80);
          requiredSkill = (if level s = 1 then targetPi - 2 / 100 else targetPi + 5 / 100)
      in if promotionState s = PromoNone \<and> level s < 7
            \<and> tierProgress s \<ge> requiredProgress \<and> skillEMA s \<ge> requiredSkill
            \<and> (case requiredHits of None \<Rightarrow> False | Some n \<Rightarrow> h \<ge> n)
         then startPromotion (level s + 1) s else s)"

definition checkpointDemote :: "real \<Rightarrow> WhackGame \<Rightarrow> WhackGame option" where
  "checkpointDemote targetPi s =
     (let demotionFloor = (if stageFloorLevel s \<ge> 2 then 2 else 1)
      in if promotionState s = PromoNone \<and> level s > demotionFloor
            \<and> levelEaseFromLevel s = None \<and> elapsedMs s > 25000
            \<and> lowPiStreak s \<ge> 4 \<and> skillEMA s \<le> targetPi - 22 / 100
            \<and> tierProgress s \<le> 16
         then do {
                s1 \<leftarrow> setLevel (max demotionFloor (level s - 1)) s;
                _ \<leftarrow> LEVEL_CONFIGS (level s1);
                Some (s1\<lparr>lowPiStreak := 0, tierProgress := 60\<rparr>)
              }
         else Some s)"

definition evaluateCheckpoint :: "WhackGame \<Rightarrow> WhackGame option" where
  "evaluateCheckpoint s =
     (let h = hits (intervalStats s);
          m = misses (intervalStats s);
          perf = checkpointPi s;
          targetPi = getTargetPiForLevel (level s)
      in do {
           s1 \<leftarrow> checkpointDemote targetPi
                  (checkpointPromote targetPi h
                    (checkpointCancel targetPi h m
                      (checkpointStreak perf
                        (checkpointBonus (checkpointBonusMs perf h m)
                          (checkpointProgress perf targetPi h m s)))));
           Some (s1\<lparr>intervalStats :=
                       \<lparr>hits = 0, misses = 0, reactionTotalMs = 0, reactionCount = 0\<rparr>\<rparr>)
         })"

lemma refreshCells_clock:
  "owp (refreshCells s)
     (\<lambda>s'. elapsedMs s' = elapsedMs s \<and> nextCheckpointAtMs s' = nextCheckpointAtMs s)"
  by (simp add: refreshCells_def Let_def owp_case_option split: option.split)

lemma setLevel_clock:
  "owp (setLevel l s)
     (\<lambda>s'. elapsedMs s' = elapsedMs s \<and> nextCheckpointAtMs s' = nextCheckpointAtMs s)"
  unfolding setLevel_def Let_def
  apply (simp add: owp_if)
  apply (intro conjI impI)
   apply (rule owp_mono [OF refreshCells_clock], simp add: owp_def split: option.split)+
  done

lemma checkpointDemote_clock:
  "owp (checkpointDemote targetPi s)
     (\<lambda>s'. elapsedMs s' = elapsedMs s \<and> nextCheckpointAtMs s' = nextCheckpointAtMs s)"
  unfolding checkpointDemote_def Let_def
  apply (simp add: owp_if)
  apply (intro conjI impI)
   apply (rule owp_mono [OF setLevel_clock], simp add: owp_def split: option.split)+
  done

lemma checkpointProgress_clock [simp]:
  "elapsedMs (checkpointProgress perf targetPi h m s) = elapsedMs s"
  "nextCheckpointAtMs (checkpointProgress perf targetPi h m s) = nextCheckpointAtMs s"
  by (simp_all add: checkpointProgress_def Let_def)

lemma checkpointBonus_clock [simp]:
  "elapsedMs (checkpointBonus b s) = elapsedMs s"
  "nextCheckpointAtMs (checkpointBonus b s) = nextCheckpointAtMs s"
  by (simp_all add: checkpointBonus_def Let_def)

lemma checkpointStreak_clock [simp]:
  "elapsedMs (checkpointStreak perf s) = elapsedMs s"
  "nextCheckpointAtMs (checkpointStreak perf s) = nextCheckpointAtMs s"
  by (simp_all add: checkpointStreak_def)

lemma checkpointCancel_clock [simp]:
  "elapsedMs (checkpointCancel targetPi h m s) = elapsedMs s"
  "nextCheckpointAtMs (checkpointCancel targetPi h m s) = nextCheckpointAtMs s"
  by (simp_all add: checkpointCancel_def cancelPromotion_def)

lemma checkpointPromote_clock [simp]:
  "elapsedMs (checkpointPromote targetPi h s) = elapsedMs s"
  "nextCheckpointAtMs (checkpointPromote targetPi h s) = nextCheckpointAtMs s"
  by (simp_all add: checkpointPromote_def startPromotion_def Let_def)

lemma evaluateCheckpoint_clock:
  "owp (evaluateCheckpoint s)
     (\<lambda>s'. elapsedMs s' = elapsedMs s \<and> nextCheckpointAtMs s' = nextCheckpointAtMs s)"
  unfolding evaluateCheckpoint_def Let_def
  apply simp
  apply (rule owp_mono [OF checkpointDemote_clock])
  apply simp
  done

function runCheckpointIfNeeded :: "WhackGame \<Rightarrow> WhackGame option" where
  "runCheckpointIfNeeded s =
     (if elapsedMs s \<ge> nextCheckpointAtMs s
      then (case evaluateCheckpoint s of
              None \<Rightarrow> None
            | Some s1 \<Rightarrow>
                runCheckpointIfNeeded
                  (s1\<lparr>nextCheckpointAtMs := nextCheckpointAtMs s1 + CHECKPOINT_MS\<rparr>))
      else Some s)"
  by pat_completeness auto
termination
proof (relation "measure (\<lambda>s. if elapsedMs s \<ge> nextCheckpointAtMs s
                                then nat \<lfloor>(elapsedMs s - nextCheckpointAtMs s) / 5000\<rfloor> + 1
                                else 0)")
  show "wf (measure (\<lambda>s. if elapsedMs s \<ge> nextCheckpointAtMs s
                          then nat \<lfloor>(elapsedMs s - nextCheckpointAtMs s) / 5000\<rfloor> + 1
                          else 0))"
    by simp
next
  fix s s1
  assume a: "nextCheckpointAtMs s \<le> elapsedMs s" and b: "evaluateCheckpoint s = Some s1"
  from owpD [OF evaluateCheckpoint_clock b]
  have c: "elapsedMs s1 = elapsedMs s" "nextCheckpointAtMs s1 = nextCheckpointAtMs s"
    by simp_all
  have "\<lfloor>(elapsedMs s - (nextCheckpointAtMs s + 5000)) / 5000\<rfloor>
          = \<lfloor>(elapsedMs s - nextCheckpointAtMs s) / 5000\<rfloor> - 1"
  proof -
    have "(elapsedMs s - (nextCheckpointAtMs s + 5000)) / 5000
            = (elapsedMs s - nextCheckpointAtMs s) / 5000 - 1"
      by (simp add: field_simps)
    then show ?thesis by (simp only: floor_diff_one)
  qed
  moreover have "0 \<le> \<lfloor>(elapsedMs s - nextCheckpointAtMs s) / 5000\<rfloor>"
    using a by simp
  ultimately show "(s1\<lparr>nextCheckpointAtMs := nextCheckpointAtMs s1 + CHECKPOINT_MS\<rparr>, s)
        \<in> measure (\<lambda>s. if elapsedMs s \<ge> nextCheckpointAtMs s
                          then nat \<lfloor>(elapsedMs s - nextCheckpointAtMs s) / 5000\<rfloor> + 1
                          else 0)"
    using a c by (simp add: CHECKPOINT_MS_def)
qed

declare runCheckpointIfNeeded.simps [simp del]


subsection \<open>The frame update and the input handlers\<close>

definition endGame :: "WhackGame \<Rightarrow> WhackGame" where
  "endGame s = s\<lparr>isRunning := False, isPaused := False, isGameOver := True\<rparr>"

text \<open>
  \<open>update\<close>; the tempo of the background music is not modelled. The first two statements
  of the source are named: the clock advances, and the time bank decays unless a promotion
  is pending.
\<close>

definition advanceClock :: "real \<Rightarrow> WhackGame \<Rightarrow> WhackGame" where
  "advanceClock deltaMs s = s\<lparr>elapsedMs := elapsedMs s + deltaMs\<rparr>"

definition decayTime :: "real \<Rightarrow> WhackGame \<Rightarrow> WhackGame" where
  "decayTime deltaMs s =
     (if promotionState s \<noteq> Pending
      then s\<lparr>timeRemainingMs := max 0 (timeRemainingMs s - deltaMs)\<rparr>
      else s)"

definition update :: "real \<Rightarrow> WhackGame \<Rightarrow> WhackGame option" where
  "update deltaMs s0 =
     (let s = advanceClock deltaMs s0
      in if stageTransitionLockMs s > 0 then Some (updateStageTransitionLock deltaMs s)
         else do {
           s2 \<leftarrow> updatePromotionState deltaMs (decayTime deltaMs s);
           if stageTransitionLockMs s2 > 0 then Some s2
           else do {
             s3 \<leftarrow> spawnMolesIfNeeded (updateMoles deltaMs (updateLevelEntryEase deltaMs s2));
             s4 \<leftarrow> runCheckpointIfNeeded s3;
             Some (if timeRemainingMs s4 \<le> 0 then endGame s4 else s4)
           }
         })"

definition tick :: "real \<Rightarrow> WhackGame \<Rightarrow> WhackGame option" where
  "tick timestamp s =
     (if \<not> isRunning s then Some s
      else
     (let s1 = (if lastFrameMs s = 0 then s\<lparr>lastFrameMs := timestamp\<rparr> else s);
          deltaMs = min 80 (timestamp - lastFrameMs s1);
          s2 = s1\<lparr>lastFrameMs := timestamp\<rparr>
      in if \<not> isPaused s2 then update deltaMs s2 else Some s2))"

text \<open>
  \<open>findHitMole\<close>: the moles in phase pop or idle, those on lower rows first (a stable
  sort on the row of the cell, \<open>0\<close> for a missing cell), and the first of them whose cell
  exists and whose visible sprite rectangle holds the pointer. The rectangle depends on
  pixel geometry that is not modelled: \<open>inside\<close> is that test for each mole. The result is
  the position of the mole in \<open>activeMoles\<close>.
\<close>

definition findHitMole :: "(ActiveMole \<Rightarrow> bool) \<Rightarrow> WhackGame \<Rightarrow> nat option" where
  "findHitMole inside s =
     (let candidates =
            sort_key (\<lambda>i. let c = cellIndex (activeMoles s ! i)
                          in - (if c < length (cells s) then row (cells s ! c) else 0))
              (filter (\<lambda>i. phase (activeMoles s ! i) = Pop \<or> phase (activeMoles s ! i) = Idle)
                 [0..<length (activeMoles s)])
      in find (\<lambda>i. cellIndex (activeMoles s ! i) < length (cells s) \<and> inside (activeMoles s ! i))
           candidates)"

text \<open>\<open>handlePointerDown\<close>; \<open>insideBoard\<close> is the result of \<open>isPointInsideBoard\<close>.\<close>

definition handlePointerDown :: "bool \<Rightarrow> (ActiveMole \<Rightarrow> bool) \<Rightarrow> WhackGame \<Rightarrow> WhackGame" where
  "handlePointerDown insideBoard inside s =
     (if \<not> isRunning s \<or> isPaused s \<or> stageTransitionLockMs s > 0 then s
      else if \<not> insideBoard then s
      else (case findHitMole inside s of
              Some i \<Rightarrow> registerHit i s
            | None \<Rightarrow> registerMiss s))"

text \<open>\<open>handlePauseClick\<close>; \<open>now\<close> is \<open>performance.now()\<close>.\<close>

definition handlePauseClick :: "real \<Rightarrow> WhackGame \<Rightarrow> WhackGame" where
  "handlePauseClick now s =
     (if \<not> isRunning s then s
      else if stageTransitionLockMs s > 0 then s
      else (let s1 = s\<lparr>isPaused := \<not> isPaused s\<rparr>
            in if isPaused s1 then s1 else s1\<lparr>lastFrameMs := now\<rparr>))"

definition startGame :: "WhackGame \<Rightarrow> WhackGame option" where
  "startGame s =
     refreshCells
       (s\<lparr>level := 1, score := 0, combo := 0, bestCombo := 0,
          timeRemainingMs := START_TIME_MS, timeGaugeCapMs := START_TIME_MS,
          tierProgress := 0, skillEMA := 5 / 10,
          promotionState := PromoNone, promotionTargetLevel := None, promotionElapsedMs := 0,
          levelEaseFromLevel := None, levelEaseElapsedMs := 0, levelEaseDurationMs := 0,
          stageTransitionLockMs := 0, stageFloorLevel := 1, lowPiStreak := 0,
          elapsedMs := 0, nextCheckpointAtMs := CHECKPOINT_MS, nextSpawnAtMs := 300,
          activeMoles := [], recentCellIndices := [],
          cellCooldownUntil := replicate (length (cells s)) 0,
          moleSerial := 1, slowUntilMs := 0,
          intervalStats := \<lparr>hits = 0, misses = 0, reactionTotalMs = 0, reactionCount = 0\<rparr>,
          sessionHits := 0, sessionMisses := 0,
          isRunning := True, isPaused := False, isGameOver := False,
          lastFrameMs := 0\<rparr>)"

text \<open>
  The fields of a freshly constructed \<open>WhackGame\<close> (the initialisers of the class), for a
  canvas of the given size and a given random sequence, after \<open>init\<close> has laid out the
  3 by 3 grid of level 1 (\<open>resizeCanvas\<close> returns early on an empty canvas).
\<close>

definition newGame :: "real \<Rightarrow> real \<Rightarrow> nat \<Rightarrow> (nat \<Rightarrow> real) \<Rightarrow> WhackGame" where
  "newGame w h sprites r =
     \<lparr>canvasWidth = w, canvasHeight = h, customCharacterCount = sprites,
      cells = (if w = 0 \<or> h = 0 then [] else gridCells 3),
      isRunning = False, isPaused = False, isGameOver = False,
      lastFrameMs = 0, elapsedMs = 0, nextCheckpointAtMs = CHECKPOINT_MS, nextSpawnAtMs = 300,
      slowUntilMs = 0, level = 1, score = 0, combo = 0, bestCombo = 0,
      timeRemainingMs = START_TIME_MS, timeGaugeCapMs = START_TIME_MS,
      tierProgress = 0, skillEMA = 5 / 10,
      promotionState = PromoNone, promotionTargetLevel = None, promotionElapsedMs = 0,
      levelEaseFromLevel = None, levelEaseElapsedMs = 0, levelEaseDurationMs = 0,
      stageTransitionLockMs = 0, stageFloorLevel = 1, lowPiStreak = 0,
      activeMoles = [], recentCellIndices = [],
      cellCooldownUntil = (if w = 0 \<or> h = 0 then [] else replicate 9 0),
      moleSerial = 1,
      intervalStats = \<lparr>hits = 0, misses = 0, reactionTotalMs = 0, reactionCount = 0\<rparr>,
      sessionHits = 0, sessionMisses = 0, rng = r, rngCount = 0\<rparr>"

subsection \<open>Sessions\<close>

text \<open>
  What can happen to a game from outside: an animation frame at a timestamp, a pointer
  press, a click on the pause button, a click on start or replay.
\<close>

datatype Event =
  Frame real
  | PointerDown bool "ActiveMole \<Rightarrow> bool"
  | PauseClick real
  | StartClick

fun handleEvent :: "Event \<Rightarrow> WhackGame \<Rightarrow> WhackGame option" where
  "handleEvent (Frame timestamp) s = tick timestamp s"
| "handleEvent (PointerDown insideBoard inside) s = Some (handlePointerDown insideBoard inside s)"
| "handleEvent (PauseClick now) s = Some (handlePauseClick now s)"
| "handleEvent StartClick s = startGame s"

fun runEvents :: "Event list \<Rightarrow> WhackGame \<Rightarrow> WhackGame option" where
  "runEvents [] s = Some s"
| "runEvents (e # es) s = Option.bind (handleEvent e s) (runEvents es)"

text \<open>The states a session can be in: from a new game, through any events that do not throw.\<close>

inductive reachable :: "WhackGame \<Rightarrow> bool" where
  reachable_new: "reachable (newGame w h sprites r)"
| reachable_event: "reachable s \<Longrightarrow> handleEvent e s = Some s' \<Longrightarrow> reachable s'"

subsection \<open>Sample states\<close>

text \<open>A random source that always returns 0, and the game right after the start click.\<close>

definition zeroRng :: "nat \<Rightarrow> real" where
  "zeroRng n = 0"

definition startedGame :: WhackGame where
  "startedGame = (newGame 360 640 0 zeroRng)\<lparr>isRunning := True\<rparr>"

text \<open>A mole of a given category in a given phase, spawned at 320 ms in cell 0.\<close>

definition exposedMole :: "MoleType \<Rightarrow> MolePhase \<Rightarrow> ActiveMole" where
  "exposedMole ty ph =
     \<lparr>moleId = 1, cellIndex = 0, moleType = ty, phase = ph, phaseElapsedMs = 40,
      spawnedAtMs = 320, popDurationMs = 120, idleDurationMs = 1200, hitDurationMs = 130,
      retreatDurationMs = 100, wasHit = False, appearanceSprite = None\<rparr>"

text \<open>A running game of level 1 at 500 ms with the given active moles.\<close>

definition sampleGame :: "ActiveMole list \<Rightarrow> WhackGame" where
  "sampleGame ms =
     (newGame 360 640 0 zeroRng)
       \<lparr>isRunning := True, lastFrameMs := 516, elapsedMs := 500, nextSpawnAtMs := 5812 / 5,
        timeRemainingMs := 44500, activeMoles := ms, recentCellIndices := [0],
        cellCooldownUntil := [1220, 0, 0, 0, 0, 0, 0, 0, 0], moleSerial := 2, rngCount := 7\<rparr>"



subsection \<open>Relations between the states before and after a step\<close>

definition sameBank :: "WhackGame \<Rightarrow> WhackGame \<Rightarrow> bool" where
  "sameBank s s' \<longleftrightarrow>
     score s' = score s \<and> timeRemainingMs s' = timeRemainingMs s \<and> skillEMA s' = skillEMA s"

definition quiet :: "WhackGame \<Rightarrow> WhackGame \<Rightarrow> bool" where
  "quiet s s' \<longleftrightarrow> sameBank s s' \<and> length (activeMoles s') \<le> length (activeMoles s)"

definition checkpointKeeps :: "WhackGame \<Rightarrow> WhackGame \<Rightarrow> bool" where
  "checkpointKeeps s s' \<longleftrightarrow>
     score s' = score s \<and> length (activeMoles s') \<le> length (activeMoles s)
     \<and> (timeRemainingMs s \<le> MAX_TIME_MS \<longrightarrow>
          timeRemainingMs s \<le> timeRemainingMs s' \<and> timeRemainingMs s' \<le> MAX_TIME_MS)"

definition countWithin :: "int \<Rightarrow> WhackGame \<Rightarrow> WhackGame \<Rightarrow> bool" where
  "countWithin c s s' \<longleftrightarrow>
     int (length (activeMoles s')) \<le> max (int (length (activeMoles s))) c"

text \<open>What a whole frame keeps: the score, and the number of moles up to the global ceiling 3.\<close>

definition frameKeeps :: "WhackGame \<Rightarrow> WhackGame \<Rightarrow> bool" where
  "frameKeeps s s' \<longleftrightarrow> score s' = score s \<and> countWithin 3 s s'"

definition sessionInv :: "WhackGame \<Rightarrow> bool" where
  "sessionInv s \<longleftrightarrow> 0 \<le> score s \<and> length (activeMoles s) \<le> 3"

subsection \<open>The performance index in the words of the specification\<close>





subsection \<open>Pending promotions\<close>

text \<open>The time bank a commit of the pending promotion sets: \<open>resetTimeForStageStart\<close> of the target.\<close>

definition stageStartMs :: "WhackGame \<Rightarrow> real" where
  "stageStartMs s =
     clamp (case STAGE_START_TIME_MS (case promotionTargetLevel s of
                                        Some l \<Rightarrow> l | None \<Rightarrow> level s + 1) of
              Some ms \<Rightarrow> ms | None \<Rightarrow> START_TIME_MS) 1000 MAX_TIME_MS"


subsection \<open>Spawning under the slow status and below the floor\<close>


text \<open>What the draws before the literal keep: the clocks, the random sequence, the moles.\<close>

definition sameClocks :: "WhackGame \<Rightarrow> WhackGame \<Rightarrow> bool" where
  "sameClocks s s' \<longleftrightarrow>
     elapsedMs s' = elapsedMs s \<and> slowUntilMs s' = slowUntilMs s \<and> rng s' = rng s
     \<and> activeMoles s' = activeMoles s"

text \<open>What a successful \<open>spawnSingleMole\<close> leaves behind.\<close>

definition spawned :: "DifficultyProfile \<Rightarrow> WhackGame \<Rightarrow> WhackGame \<Rightarrow> bool" where
  "spawned profile s s' \<longleftrightarrow>
     (\<exists>m. activeMoles s' = activeMoles s @ [m] \<and> phase m = Pop
        \<and> idleDurationMs m =
            randomBetween (rng s (rngCount s + 3)) (holdMinMs profile) (holdMaxMs profile)
              * idleScaleFor (moleType m) s)
     \<and> elapsedMs s' = elapsedMs s
     \<and> nextSpawnAtMs s' =
         (if int (length (activeMoles s)) < concurrentMin profile - 1 then elapsedMs s
          else nextSpawnAtMs s)"


text \<open>The profile of level 1 at tier progress 0, as \<open>getDifficultyProfile\<close> computes it.\<close>

definition level1Profile :: DifficultyProfile where
  "level1Profile = mkLevel 3 1 1 980 1200 1450"

text \<open>
  The first frames of a session: the start click and four frames, which take the clock to
  240 ms; the frame after them is the first to reach the spawn time 300 ms.
\<close>

definition firstSpawnEvents :: "Event list" where
  "firstSpawnEvents = [StartClick, Frame 16, Frame 96, Frame 176, Frame 256]"

definition preSpawn :: WhackGame where
  "preSpawn = the (runEvents firstSpawnEvents (newGame 360 640 0 zeroRng))"

definition afterSpawn :: WhackGame where
  "afterSpawn = the (tick 336 preSpawn)"

text \<open>
  A level 4 game at 94.96 s, 40 ms before a checkpoint: tier progress 51, three moles up,
  six misses and no hit in the running interval.
\<close>

definition level4Sample :: WhackGame where
  "level4Sample =
     (newGame 360 640 0 zeroRng)
       \<lparr>cells := gridCells 6, isRunning := True, lastFrameMs := 94976, elapsedMs := 94960,
        nextCheckpointAtMs := 95000, nextSpawnAtMs := 95600, level := 4, score := 40,
        bestCombo := 12, timeRemainingMs := 30000, tierProgress := 51, skillEMA := 6 / 10,
        stageFloorLevel := 4,
        activeMoles :=
          [(exposedMole Normal Idle)\<lparr>moleId := 117, cellIndex := 3, spawnedAtMs := 94400,
             idleDurationMs := 3747 / 5\<rparr>,
           (exposedMole Normal Idle)\<lparr>moleId := 118, cellIndex := 16, spawnedAtMs := 94560,
             idleDurationMs := 3747 / 5\<rparr>,
           (exposedMole Normal Pop)\<lparr>moleId := 119, cellIndex := 29, spawnedAtMs := 94880,
             idleDurationMs := 3747 / 5\<rparr>],
        recentCellIndices := [8, 21, 30, 3, 16, 29],
        cellCooldownUntil := replicate 36 0, moleSerial := 120,
        intervalStats := \<lparr>hits = 0, misses = 6, reactionTotalMs = 0, reactionCount = 0\<rparr>,
        sessionHits := 80, sessionMisses := 14, rngCount := 840\<rparr>"

definition level4Profile :: DifficultyProfile where
  "level4Profile = the (getDifficultyProfile level4Sample)"

definition level4Empty :: WhackGame where
  "level4Empty = level4Sample\<lparr>activeMoles := []\<rparr>"

definition afterCheckpoint :: WhackGame where
  "afterCheckpoint = the (tick 95056 level4Sample)"

section \<open>Properties of scoring and combo\<close>



text \<open>
  C6. A hit on a bomb (hazard) in phase pop or idle, whatever the combo: the score becomes
  \<open>max 0 (score - 3)\<close>, the delta \<open>-3\<close> taken without a combo multiplier; the time bank
  loses 2000 ms and is clamped below at 0; the combo is reset to 0.
\<close>

theorem registerHit_bomb:
  assumes "i < length (activeMoles s)"
    and "moleType (activeMoles s ! i) = Bomb"
    and "phase (activeMoles s ! i) = Pop \<or> phase (activeMoles s ! i) = Idle"
  shows "score (registerHit i s) = max 0 (score s - 3)
         \<and> timeRemainingMs (registerHit i s) = clamp (timeRemainingMs s - 2000) 0 MAX_TIME_MS
         \<and> (timeRemainingMs s \<le> MAX_TIME_MS \<longrightarrow>
              timeRemainingMs (registerHit i s) = max 0 (timeRemainingMs s - 2000))
         \<and> combo (registerHit i s) = 0"
  using assms
  by (auto simp: registerHit_def Let_def mathRound_def clamp_def MAX_TIME_MS_def)

theorem registerHit_bomb_witness:
  "score (registerHit 0 ((sampleGame [exposedMole Bomb Idle])\<lparr>combo := 7, score := 10\<rparr>)) = 7
   \<and> timeRemainingMs
         (registerHit 0 ((sampleGame [exposedMole Bomb Idle])\<lparr>combo := 7, score := 10\<rparr>)) = 42500
   \<and> combo (registerHit 0 ((sampleGame [exposedMole Bomb Idle])\<lparr>combo := 7, score := 10\<rparr>)) = 0"
  using registerHit_bomb [of 0 "(sampleGame [exposedMole Bomb Idle])\<lparr>combo := 7, score := 10\<rparr>"]
  by (simp add: sampleGame_def exposedMole_def newGame_def START_TIME_MS_def MAX_TIME_MS_def
        clamp_def)




section \<open>Category lottery\<close>

lemma gridCells_3:
  "gridCells 3 =
     [\<lparr>index = 0, row = 0, col = 0\<rparr>, \<lparr>index = 1, row = 0, col = 1\<rparr>,
      \<lparr>index = 2, row = 0, col = 2\<rparr>, \<lparr>index = 3, row = 1, col = 0\<rparr>,
      \<lparr>index = 4, row = 1, col = 1\<rparr>, \<lparr>index = 5, row = 1, col = 2\<rparr>,
      \<lparr>index = 6, row = 2, col = 0\<rparr>, \<lparr>index = 7, row = 2, col = 1\<rparr>,
      \<lparr>index = 8, row = 2, col = 2\<rparr>]"
  by (simp add: gridCells_def upt_rec)

lemma startGame_newGame: "startGame (newGame 360 640 0 zeroRng) = Some startedGame"
  by (simp add: startGame_def startedGame_def newGame_def refreshCells_def LEVEL_CONFIGS_def
        mkLevel_def gridCells_3 START_TIME_MS_def CHECKPOINT_MS_def Let_def)
     (simp add: numeral_eq_Suc)

lemma reachable_startedGame: "reachable startedGame"
proof -
  have "handleEvent StartClick (newGame 360 640 0 zeroRng) = Some startedGame"
    by (simp add: startGame_newGame)
  then show ?thesis
    using reachable_new reachable_event by blast
qed

lemma moleTypeWeights_shape:
  "\<exists>a b c d. moleTypeWeights s =
     [(Normal, max 1 a), (Gold, max (5 / 10) b), (Bomb, max (2 / 10) c), (Ice, max 0 d)]"
  unfolding moleTypeWeights_def Let_def
  by (simp only: split_beta) blast

text \<open>
  C4 as stated fails: in the game right after the start click, a reachable state of
  level 1, the weight of the ice (chill) category is 0.
\<close>

theorem ice_weight_zero_counterexample:
  "reachable startedGame \<and> moleTypeWeights startedGame ! 3 = (Ice, 0)"
proof
  show "reachable startedGame"
    by (rule reachable_startedGame)
  show "moleTypeWeights startedGame ! 3 = (Ice, 0)"
    by (simp add: moleTypeWeights_def startedGame_def newGame_def Let_def startWeights_def
          endWeights_def lerp_def getTierBlendToNext_def getLevelEntryEaseRatio_def clamp_def)
qed

text \<open>
  C4, amended. In every state, after all adjustments the weights handed to the lottery are
  at least 1 for normal, 0.5 for gold and 0.2 for bomb, so these three are strictly
  positive; the ice weight is floored at 0 only and can be 0. The total weight is strictly
  positive.
\<close>

theorem moleTypeWeights_floors:
  "\<exists>n g b i. moleTypeWeights s = [(Normal, n), (Gold, g), (Bomb, b), (Ice, i)]
      \<and> 1 \<le> n \<and> 1 / 2 \<le> g \<and> 1 / 5 \<le> b \<and> 0 \<le> i
      \<and> 0 < foldl (\<lambda>sum (t, weight). sum + weight) 0 (moleTypeWeights s)"
proof -
  obtain a b c d where w: "moleTypeWeights s =
     [(Normal, max 1 a), (Gold, max (5 / 10) b), (Bomb, max (2 / 10) c), (Ice, max 0 d)]"
    using moleTypeWeights_shape by blast
  have "0 < max 1 a + max (5 / 10) b + max (2 / 10) c + max 0 d"
    by (simp add: max_def)
  then show ?thesis
    unfolding w by (simp add: max_def)
qed

section \<open>What the steps of a frame keep\<close>

lemma sameBank_refl [simp]: "sameBank s s"
  by (simp add: sameBank_def)

lemma sameBank_trans: "sameBank s t \<Longrightarrow> sameBank t u \<Longrightarrow> sameBank s u"
  by (simp add: sameBank_def)

lemma refreshCells_sameBank: "owp (refreshCells s) (sameBank s)"
  by (simp add: refreshCells_def Let_def owp_case_option sameBank_def split: option.split)

lemma setLevel_sameBank: "owp (setLevel l s) (sameBank s)"
  unfolding setLevel_def Let_def
  apply (simp add: owp_if)
  apply (intro conjI impI)
   apply (rule owp_mono [OF refreshCells_sameBank],
          simp add: owp_def sameBank_def split: option.split)+
  done

lemma nextRandom_sameBank: "nextRandom s = (r, s') \<Longrightarrow> sameBank s s'"
  by (auto simp: nextRandom_def sameBank_def)

lemma pickMoleType_sameBank: "owp (pickMoleType s) (\<lambda>(t, s'). sameBank s s')"
  by (simp add: pickMoleType_def nextRandom_def Let_def owp_case_option sameBank_def
        split: option.split)

lemma buildMole_sameBank: "buildMole profile c t s = (m, s') \<Longrightarrow> sameBank s s'"
  by (auto simp: buildMole_def nextRandom_def pickAppearanceSprite_def Let_def sameBank_def
        split: prod.splits if_splits)

lemma pushMole_sameBank: "sameBank s (pushMole m s)"
  by (simp add: pushMole_def Let_def sameBank_def)

lemma spawnSingleMole_sameBank:
  "owp (spawnSingleMole profile s) (\<lambda>(b, s'). sameBank s s')"
  unfolding spawnSingleMole_def
  apply (simp add: Let_def owp_if owp_case_prod split: prod.split)
  apply (intro conjI impI)
   apply (rule owpI, clarsimp)
   apply (rule owp_mono [OF pickMoleType_sameBank])
   apply (clarsimp dest!: nextRandom_sameBank buildMole_sameBank)
   apply (simp add: sameBank_def pushMole_def Let_def)
  apply (rule owpI, clarsimp)
  apply (rule owp_mono [OF pickMoleType_sameBank])
  apply (clarsimp dest!: nextRandom_sameBank buildMole_sameBank)
  apply (simp add: sameBank_def pushMole_def Let_def)
  done

text \<open>A relation between states that every step of the spawn loop respects holds across the loop.\<close>

lemma spawnLoop_rule:
  assumes rrefl: "\<And>t. R t t"
    and rtrans: "\<And>t u v. R t u \<Longrightarrow> R u v \<Longrightarrow> R t v"
    and single: "\<And>t b t1. int (length (activeMoles t)) < concurrentMax profile \<Longrightarrow>
                   spawnSingleMole profile t = Some (b, t1) \<Longrightarrow> R t t1"
    and random: "\<And>t r t1. nextRandom t = (r, t1) \<Longrightarrow> R t t1"
    and sched: "\<And>t v. R t (t\<lparr>nextSpawnAtMs := v\<rparr>)"
  shows "owp (spawnLoop profile s) (R s)"
  using single
proof (induction profile s rule: spawnLoop.induct)
  case (1 profile s)
  note single = "1.prems"
  show ?case
  proof (cases "elapsedMs s \<ge> nextSpawnAtMs s
                \<and> int (length (activeMoles s)) < concurrentMax profile")
    case False
    then show ?thesis
      by (subst spawnLoop.simps) (simp only: if_False owp_Some rrefl)
  next
    case True
    show ?thesis
    proof (rule owpI)
      fix x assume x: "spawnLoop profile s = Some x"
      from x True obtain didSpawn s1 where sp: "spawnSingleMole profile s = Some (didSpawn, s1)"
        by (subst (asm) spawnLoop.simps) (auto split: option.splits)
      from True single [OF _ sp] have b1: "R s s1" by blast
      show "R s x"
      proof (cases didSpawn)
        case False
        with x True sp have "x = s1\<lparr>nextSpawnAtMs := elapsedMs s1 + 120\<rparr>"
          by (subst (asm) spawnLoop.simps) simp
        with b1 sched show ?thesis by (blast intro: rtrans)
      next
        case True2: True
        obtain r s2 where nr: "nextRandom s1 = (r, s2)" by (cases "nextRandom s1")
        define s3 where "s3 = s2\<lparr>nextSpawnAtMs := nextSpawnAtMs s2
            + randomBetween r (spawnIntervalMs profile * (88 / 100))
                (spawnIntervalMs profile * (112 / 100)) * getSlowFactor s1\<rparr>"
        from x True sp True2 nr have x3: "spawnLoop profile s3 = Some x"
          by (subst (asm) spawnLoop.simps) (simp add: Let_def s3_def)
        have "owp (spawnLoop profile s3) (R s3)"
          using "1.IH" [OF True sp refl _ refl refl nr [symmetric] refl single] True2
          by (simp add: s3_def)
        from owpD [OF this x3] have "R s3 x" .
        moreover have "R s s3"
          unfolding s3_def using b1 random [OF nr] sched by (blast intro: rtrans)
        ultimately show ?thesis by (blast intro: rtrans)
      qed
    qed
  qed
qed

lemma spawnLoop_sameBank: "owp (spawnLoop profile s) (sameBank s)"
proof (rule spawnLoop_rule)
  show "sameBank t t" for t by simp
  show "sameBank t u \<Longrightarrow> sameBank u v \<Longrightarrow> sameBank t v" for t u v by (rule sameBank_trans)
  show "spawnSingleMole profile t = Some (b, t1) \<Longrightarrow> sameBank t t1" for t b t1
    using owpD [OF spawnSingleMole_sameBank, of profile t "(b, t1)"] by simp
  show "nextRandom t = (r, t1) \<Longrightarrow> sameBank t t1" for t r t1 by (rule nextRandom_sameBank)
  show "sameBank t (t\<lparr>nextSpawnAtMs := v\<rparr>)" for t v by (simp add: sameBank_def)
qed


lemma stepMole_sameBank: "stepMole d m s = (m', s') \<Longrightarrow> sameBank s s'"
  by (auto simp: stepMole_def Let_def registerMiss_def sameBank_def split: if_splits)

lemma updateMolesList_sameBank: "updateMolesList d ms s = (ms', s') \<Longrightarrow> sameBank s s'"
proof (induction ms arbitrary: ms' s')
  case Nil
  then show ?case by simp
next
  case (Cons m ms)
  obtain ms1 s1 where a: "updateMolesList d ms s = (ms1, s1)" by (cases "updateMolesList d ms s")
  obtain m1 s2 where b: "stepMole d m s1 = (m1, s2)" by (cases "stepMole d m s1")
  from Cons.prems a b have "s' = s2" by (simp add: Let_def)
  with Cons.IH [OF a] stepMole_sameBank [OF b] show ?case
    by (blast intro: sameBank_trans)
qed

lemma updateMoles_sameBank: "sameBank s (updateMoles d s)"
proof -
  obtain ms1 s1 where a: "updateMolesList d (activeMoles s) s = (ms1, s1)"
    by (cases "updateMolesList d (activeMoles s) s")
  from updateMolesList_sameBank [OF a] show ?thesis
    by (simp add: updateMoles_def a sameBank_def)
qed

lemma updateLevelEntryEase_sameBank: "sameBank s (updateLevelEntryEase d s)"
  by (simp add: updateLevelEntryEase_def Let_def sameBank_def)

lemma quiet_refl [simp]: "quiet s s"
  by (simp add: quiet_def)

lemma quiet_trans: "quiet s t \<Longrightarrow> quiet t u \<Longrightarrow> quiet s u"
  by (auto simp: quiet_def intro: sameBank_trans)

lemma refreshCells_quiet: "owp (refreshCells s) (quiet s)"
  by (simp add: refreshCells_def Let_def owp_case_option quiet_def sameBank_def
        split: option.split)

lemma setLevel_quiet: "owp (setLevel l s) (quiet s)"
  unfolding setLevel_def Let_def
  apply (simp add: owp_if)
  apply (intro conjI impI)
   apply (rule owp_mono [OF refreshCells_quiet],
          simp add: owp_def quiet_def sameBank_def split: option.split)+
  done

lemma updateMolesList_length: "length (fst (updateMolesList d ms s)) \<le> length ms"
proof (induction ms)
  case Nil
  then show ?case by simp
next
  case (Cons m ms)
  obtain ms1 s1 where a: "updateMolesList d ms s = (ms1, s1)" by (cases "updateMolesList d ms s")
  obtain m1 s2 where b: "stepMole d m s1 = (m1, s2)" by (cases "stepMole d m s1")
  from Cons.IH a have "length ms1 \<le> length ms" by simp
  then show ?case
    by (simp add: a b Let_def split: option.split)
qed

lemma updateMoles_quiet: "quiet s (updateMoles d s)"
proof -
  obtain ms1 s1 where a: "updateMolesList d (activeMoles s) s = (ms1, s1)"
    by (cases "updateMolesList d (activeMoles s) s")
  have "length ms1 \<le> length (activeMoles s)"
    using updateMolesList_length [of d "activeMoles s" s] by (simp add: a)
  with updateMoles_sameBank [of s d] show ?thesis
    by (simp add: quiet_def updateMoles_def a)
qed

lemma checkpointKeeps_refl [simp]: "checkpointKeeps s s"
  by (simp add: checkpointKeeps_def)

lemma checkpointKeeps_trans [trans]:
  "checkpointKeeps s t \<Longrightarrow> checkpointKeeps t u \<Longrightarrow> checkpointKeeps s u"
  by (auto simp: checkpointKeeps_def)

lemma quiet_checkpointKeeps: "quiet s s' \<Longrightarrow> checkpointKeeps s s'"
  by (simp add: quiet_def sameBank_def checkpointKeeps_def)

lemma checkpointProgress_keeps [simp]:
  "checkpointKeeps s (checkpointProgress perf targetPi h m s)"
  by (simp add: checkpointProgress_def Let_def checkpointKeeps_def)

lemma checkpointBonus_keeps:
  "0 \<le> b \<Longrightarrow> checkpointKeeps s (checkpointBonus b s)"
  by (simp add: checkpointBonus_def Let_def checkpointKeeps_def)

lemma checkpointBonusMs_nonneg: "0 \<le> checkpointBonusMs perf h m"
  by (simp add: checkpointBonusMs_def)

lemma checkpointStreak_keeps [simp]: "checkpointKeeps s (checkpointStreak perf s)"
  by (simp add: checkpointStreak_def checkpointKeeps_def)

lemma checkpointCancel_keeps [simp]: "checkpointKeeps s (checkpointCancel targetPi h m s)"
  by (simp add: checkpointCancel_def cancelPromotion_def checkpointKeeps_def)

lemma checkpointPromote_keeps [simp]: "checkpointKeeps s (checkpointPromote targetPi h s)"
  by (simp add: checkpointPromote_def startPromotion_def Let_def checkpointKeeps_def)

lemma checkpointDemote_keeps: "owp (checkpointDemote targetPi s) (checkpointKeeps s)"
  unfolding checkpointDemote_def Let_def
  apply (simp add: owp_if)
  apply (intro conjI impI)
   apply (rule owp_mono [OF setLevel_quiet],
          simp add: owp_def quiet_def sameBank_def checkpointKeeps_def split: option.split)+
  done

lemma checkpointStages_keeps:
  "checkpointKeeps s
     (checkpointPromote targetPi h
        (checkpointCancel targetPi h m
           (checkpointStreak perf
              (checkpointBonus (checkpointBonusMs perf h m)
                 (checkpointProgress perf targetPi h m s)))))"
proof -
  let ?s1 = "checkpointProgress perf targetPi h m s"
  let ?s2 = "checkpointBonus (checkpointBonusMs perf h m) ?s1"
  let ?s3 = "checkpointStreak perf ?s2"
  let ?s4 = "checkpointCancel targetPi h m ?s3"
  have "checkpointKeeps s ?s1" by simp
  also have "checkpointKeeps ?s1 ?s2"
    by (rule checkpointBonus_keeps [OF checkpointBonusMs_nonneg])
  also have "checkpointKeeps ?s2 ?s3" by simp
  also have "checkpointKeeps ?s3 ?s4" by simp
  also have "checkpointKeeps ?s4 (checkpointPromote targetPi h ?s4)" by simp
  finally show ?thesis .
qed

lemma checkpointFinish_keeps:
  assumes "checkpointKeeps s t"
  shows "owp (Option.bind (checkpointDemote targetPi t) (\<lambda>s1. Some (s1\<lparr>intervalStats := z\<rparr>)))
           (checkpointKeeps s)"
  apply simp
  apply (rule owp_mono [OF checkpointDemote_keeps])
  using assms apply (auto simp: checkpointKeeps_def)
  done

lemma evaluateCheckpoint_keeps: "owp (evaluateCheckpoint s) (checkpointKeeps s)"
  unfolding evaluateCheckpoint_def Let_def
  by (rule checkpointFinish_keeps [OF checkpointStages_keeps])

lemma runCheckpointIfNeeded_rule:
  assumes rrefl: "\<And>t. R t t"
    and rtrans: "\<And>t u v. R t u \<Longrightarrow> R u v \<Longrightarrow> R t v"
    and step: "\<And>t t1. evaluateCheckpoint t = Some t1 \<Longrightarrow> R t t1"
    and sched: "\<And>t v. R t (t\<lparr>nextCheckpointAtMs := v\<rparr>)"
  shows "owp (runCheckpointIfNeeded s) (R s)"
proof (induction s rule: runCheckpointIfNeeded.induct)
  case (1 s)
  show ?case
  proof (cases "elapsedMs s \<ge> nextCheckpointAtMs s")
    case False
    then show ?thesis
      by (subst runCheckpointIfNeeded.simps) (simp only: if_False owp_Some rrefl)
  next
    case True
    show ?thesis
    proof (rule owpI)
      fix x assume x: "runCheckpointIfNeeded s = Some x"
      from x True obtain s1 where ev: "evaluateCheckpoint s = Some s1"
        by (subst (asm) runCheckpointIfNeeded.simps) (auto split: option.splits)
      define s2 where "s2 = s1\<lparr>nextCheckpointAtMs := nextCheckpointAtMs s1 + CHECKPOINT_MS\<rparr>"
      from x True ev have x2: "runCheckpointIfNeeded s2 = Some x"
        by (subst (asm) runCheckpointIfNeeded.simps) (simp add: s2_def)
      have "owp (runCheckpointIfNeeded s2) (R s2)"
        using "1.IH" [OF True ev] by (simp add: s2_def)
      from owpD [OF this x2] have "R s2 x" .
      moreover have "R s s2"
        unfolding s2_def using step [OF ev] sched by (blast intro: rtrans)
      ultimately show "R s x" by (blast intro: rtrans)
    qed
  qed
qed

lemma runCheckpointIfNeeded_keeps: "owp (runCheckpointIfNeeded s) (checkpointKeeps s)"
proof (rule runCheckpointIfNeeded_rule)
  show "checkpointKeeps t t" for t by simp
  show "checkpointKeeps t u \<Longrightarrow> checkpointKeeps u v \<Longrightarrow> checkpointKeeps t v" for t u v
    by (rule checkpointKeeps_trans)
  show "evaluateCheckpoint t = Some t1 \<Longrightarrow> checkpointKeeps t t1" for t t1
    using owpD [OF evaluateCheckpoint_keeps] by blast
  show "checkpointKeeps t (t\<lparr>nextCheckpointAtMs := v\<rparr>)" for t v
    by (simp add: checkpointKeeps_def)
qed

lemma clampProfile_bounds:
  "1 \<le> concurrentMin (clampProfile p) \<and> concurrentMin (clampProfile p) \<le> concurrentMax (clampProfile p)
   \<and> concurrentMax (clampProfile p) \<le> 3"
  by (simp add: clampProfile_def Let_def clamp_def)

lemma getDifficultyProfile_bounds:
  assumes "getDifficultyProfile s = Some p"
  shows "1 \<le> concurrentMin p \<and> concurrentMin p \<le> concurrentMax p \<and> concurrentMax p \<le> 3"
proof -
  from assms obtain q where "p = clampProfile q"
    by (auto simp: getDifficultyProfile_def Let_def bind_eq_Some_conv split: if_splits)
  then show ?thesis using clampProfile_bounds by simp
qed

lemma spawnSingleMole_length_le:
  assumes "spawnSingleMole profile s = Some (b, s')"
  shows "length (activeMoles s') \<le> Suc (length (activeMoles s))"
proof (cases b)
  case True
  with assms show ?thesis using spawnSingleMole_length by simp
next
  case False
  with assms have "s' = s"
    by (auto simp: spawnSingleMole_def Let_def bind_eq_Some_conv split: if_splits prod.splits)
  then show ?thesis by simp
qed

lemma spawnLoop_countWithin:
  "owp (spawnLoop profile s) (countWithin (concurrentMax profile) s)"
proof (rule spawnLoop_rule)
  show "countWithin (concurrentMax profile) t t" for t by (simp add: countWithin_def)
  show "countWithin (concurrentMax profile) t u \<Longrightarrow> countWithin (concurrentMax profile) u v
        \<Longrightarrow> countWithin (concurrentMax profile) t v" for t u v
    by (auto simp: countWithin_def)
  show "int (length (activeMoles t)) < concurrentMax profile \<Longrightarrow>
        spawnSingleMole profile t = Some (b, t1) \<Longrightarrow> countWithin (concurrentMax profile) t t1"
    for t b t1
    using spawnSingleMole_length_le [of profile t b t1] by (simp add: countWithin_def)
  show "nextRandom t = (r, t1) \<Longrightarrow> countWithin (concurrentMax profile) t t1" for t r t1
    by (simp add: countWithin_def nextRandom_activeMoles)
  show "countWithin (concurrentMax profile) t (t\<lparr>nextSpawnAtMs := v\<rparr>)" for t v
    by (simp add: countWithin_def)
qed

lemma frameKeeps_refl [simp]: "frameKeeps s s"
  by (simp add: frameKeeps_def countWithin_def)

lemma frameKeeps_trans [trans]: "frameKeeps s t \<Longrightarrow> frameKeeps t u \<Longrightarrow> frameKeeps s u"
  by (auto simp: frameKeeps_def countWithin_def)

lemma quiet_frameKeeps: "quiet s s' \<Longrightarrow> frameKeeps s s'"
  by (auto simp: quiet_def sameBank_def frameKeeps_def countWithin_def)

lemma checkpointKeeps_frameKeeps: "checkpointKeeps s s' \<Longrightarrow> frameKeeps s s'"
  by (auto simp: checkpointKeeps_def frameKeeps_def countWithin_def)

lemma spawnMolesIfNeeded_frameKeeps: "owp (spawnMolesIfNeeded s) (frameKeeps s)"
proof (rule owpI)
  fix x assume x: "spawnMolesIfNeeded s = Some x"
  show "frameKeeps s x"
  proof (cases "cells s = []")
    case True
    with x show ?thesis by (simp add: spawnMolesIfNeeded_def)
  next
    case False
    with x obtain p where p: "getDifficultyProfile s = Some p" and l: "spawnLoop p s = Some x"
      by (auto simp: spawnMolesIfNeeded_def split: option.splits)
    from owpD [OF spawnLoop_countWithin l] getDifficultyProfile_bounds [OF p]
    have "countWithin 3 s x" by (auto simp: countWithin_def)
    moreover from owpD [OF spawnLoop_sameBank l] have "score x = score s"
      by (simp add: sameBank_def)
    ultimately show ?thesis by (simp add: frameKeeps_def)
  qed
qed

lemma updatePromotionState_frameKeeps: "owp (updatePromotionState d s) (frameKeeps s)"
  unfolding updatePromotionState_def Let_def
  apply (simp add: owp_if frameKeeps_def countWithin_def)
  apply (intro conjI impI)
  apply (rule owp_mono [OF setLevel_quiet])
  apply (simp add: quiet_def sameBank_def resetTimeForStageStart_def
           beginStageTransitionNotice_def Let_def frameKeeps_def countWithin_def)
  done

lemma update_cases:
  assumes "update d s = Some x"
  obtains (locked) "stageTransitionLockMs s > 0"
      "x = updateStageTransitionLock d (advanceClock d s)"
  | (committed) "\<not> stageTransitionLockMs s > 0"
      "updatePromotionState d (decayTime d (advanceClock d s)) = Some x"
      "stageTransitionLockMs x > 0"
  | (played) s2 s3 s4 where "\<not> stageTransitionLockMs s > 0"
      "updatePromotionState d (decayTime d (advanceClock d s)) = Some s2"
      "\<not> stageTransitionLockMs s2 > 0"
      "spawnMolesIfNeeded (updateMoles d (updateLevelEntryEase d s2)) = Some s3"
      "runCheckpointIfNeeded s3 = Some s4"
      "x = (if timeRemainingMs s4 \<le> 0 then endGame s4 else s4)"
proof (cases "stageTransitionLockMs s > 0")
  case True
  with assms have "x = updateStageTransitionLock d (advanceClock d s)"
    by (simp add: update_def Let_def advanceClock_def)
  with True show ?thesis by (rule locked)
next
  case False
  then have l: "\<not> stageTransitionLockMs (advanceClock d s) > 0"
    by (simp add: advanceClock_def)
  from assms l obtain s2 where s2: "updatePromotionState d (decayTime d (advanceClock d s)) = Some s2"
    and rest: "(if stageTransitionLockMs s2 > 0 then Some s2
           else Option.bind (spawnMolesIfNeeded (updateMoles d (updateLevelEntryEase d s2)))
                  (\<lambda>s3. Option.bind (runCheckpointIfNeeded s3)
                           (\<lambda>s4. Some (if timeRemainingMs s4 \<le> 0 then endGame s4 else s4)))) = Some x"
    unfolding update_def Let_def by (simp add: bind_eq_Some_conv) blast
  show ?thesis
  proof (cases "stageTransitionLockMs s2 > 0")
    case True
    with rest have "x = s2" by simp
    with False s2 True show ?thesis by (simp add: committed)
  next
    case False2: False
    with rest obtain s3 s4 where
      "spawnMolesIfNeeded (updateMoles d (updateLevelEntryEase d s2)) = Some s3"
      "runCheckpointIfNeeded s3 = Some s4"
      "x = (if timeRemainingMs s4 \<le> 0 then endGame s4 else s4)"
      by (simp add: bind_eq_Some_conv) blast
    with False s2 False2 show ?thesis by (rule played)
  qed
qed

lemma update_frameKeeps: "owp (update d s) (frameKeeps s)"
proof (rule owpI)
  fix x assume x: "update d s = Some x"
  have k1: "frameKeeps s (decayTime d (advanceClock d s))"
    by (simp add: decayTime_def advanceClock_def frameKeeps_def countWithin_def)
  from x show "frameKeeps s x"
  proof (cases rule: update_cases)
    case locked
    then show ?thesis
      by (simp add: updateStageTransitionLock_def advanceClock_def frameKeeps_def
            countWithin_def)
  next
    case committed
    from k1 owpD [OF updatePromotionState_frameKeeps committed(2)] show ?thesis
      by (rule frameKeeps_trans)
  next
    case (played s2 s3 s4)
    note k1
    also have "frameKeeps (decayTime d (advanceClock d s)) s2"
      by (rule owpD [OF updatePromotionState_frameKeeps played(2)])
    also have "frameKeeps s2 (updateLevelEntryEase d s2)"
      by (simp add: updateLevelEntryEase_def Let_def frameKeeps_def countWithin_def)
    also have "frameKeeps (updateLevelEntryEase d s2) (updateMoles d (updateLevelEntryEase d s2))"
      by (rule quiet_frameKeeps [OF updateMoles_quiet])
    also have "frameKeeps (updateMoles d (updateLevelEntryEase d s2)) s3"
      by (rule owpD [OF spawnMolesIfNeeded_frameKeeps played(4)])
    also have "frameKeeps s3 s4"
      by (rule checkpointKeeps_frameKeeps [OF owpD [OF runCheckpointIfNeeded_keeps played(5)]])
    also have "frameKeeps s4 x"
      by (simp add: played(6) endGame_def frameKeeps_def countWithin_def)
    finally show ?thesis .
  qed
qed

lemma frameKeeps_sessionInv: "frameKeeps s s' \<Longrightarrow> sessionInv s \<Longrightarrow> sessionInv s'"
  by (auto simp: frameKeeps_def countWithin_def sessionInv_def)

lemma registerHit_sessionInv: "sessionInv s \<Longrightarrow> sessionInv (registerHit i s)"
  by (simp add: registerHit_def Let_def sessionInv_def)

lemma registerMiss_sessionInv: "sessionInv s \<Longrightarrow> sessionInv (registerMiss s)"
  by (simp add: registerMiss_def sessionInv_def)

lemma handlePointerDown_sessionInv:
  "sessionInv s \<Longrightarrow> sessionInv (handlePointerDown insideBoard inside s)"
  by (simp add: handlePointerDown_def registerHit_sessionInv registerMiss_sessionInv
        split: option.split)

lemma handlePauseClick_sessionInv: "sessionInv s \<Longrightarrow> sessionInv (handlePauseClick now s)"
  by (simp add: handlePauseClick_def Let_def sessionInv_def)

lemma tick_cases:
  assumes "tick timestamp s = Some s'"
  obtains (idle) "s' = s" | (paused) "s' = s\<lparr>lastFrameMs := timestamp\<rparr>"
  | (frame) d where "d \<le> 80" "update d (s\<lparr>lastFrameMs := timestamp\<rparr>) = Some s'"
proof -
  have e: "(if lastFrameMs s = 0 then s\<lparr>lastFrameMs := timestamp\<rparr> else s)
             \<lparr>lastFrameMs := timestamp\<rparr> = s\<lparr>lastFrameMs := timestamp\<rparr>"
    by simp
  show ?thesis
  proof (cases "isRunning s")
    case False
    with assms have "s' = s" by (simp add: tick_def)
    then show ?thesis by (rule idle)
  next
    case True
    show ?thesis
    proof (cases "isPaused s")
      case True2: True
      with assms True have "s' = s\<lparr>lastFrameMs := timestamp\<rparr>"
        unfolding tick_def Let_def e by (simp split: if_splits)
      then show ?thesis by (rule paused)
    next
      case False
      with assms True have
        "update (min 80 (timestamp - lastFrameMs (if lastFrameMs s = 0
                    then s\<lparr>lastFrameMs := timestamp\<rparr> else s)))
           (s\<lparr>lastFrameMs := timestamp\<rparr>) = Some s'"
        unfolding tick_def Let_def e by (simp split: if_splits)
      then show ?thesis by (rule frame [rotated]) simp
    qed
  qed
qed

lemma tick_sessionInv:
  assumes "tick timestamp s = Some s'" and "sessionInv s"
  shows "sessionInv s'"
  using assms(1)
proof (cases rule: tick_cases)
  case idle
  with assms(2) show ?thesis by simp
next
  case paused
  with assms(2) show ?thesis by (simp add: sessionInv_def)
next
  case (frame d)
  have "sessionInv (s\<lparr>lastFrameMs := timestamp\<rparr>)"
    using assms(2) by (simp add: sessionInv_def)
  with owpD [OF update_frameKeeps frame(2)] show ?thesis
    by (rule frameKeeps_sessionInv)
qed

lemma startGame_sessionInv:
  assumes "startGame s = Some s'"
  shows "sessionInv s'"
proof -
  from assms obtain t where t: "refreshCells t = Some s'" and "score t = 0" "activeMoles t = []"
    by (simp add: startGame_def)
  with owpD [OF refreshCells_quiet t] show ?thesis
    by (simp add: quiet_def sameBank_def sessionInv_def)
qed

lemma newGame_sessionInv: "sessionInv (newGame w h sprites r)"
  by (simp add: newGame_def sessionInv_def)

lemma handleEvent_sessionInv:
  assumes "handleEvent e s = Some s'" and "sessionInv s"
  shows "sessionInv s'"
  using assms
  by (cases e)
     (auto intro: tick_sessionInv handlePointerDown_sessionInv handlePauseClick_sessionInv
        startGame_sessionInv)

lemma reachable_sessionInv: "reachable s \<Longrightarrow> sessionInv s"
  by (induction rule: reachable.induct)
     (auto intro: newGame_sessionInv handleEvent_sessionInv)

section \<open>Invariants of a session\<close>

text \<open>
  C5. In every state a session can reach, through frames, pointer presses, pause clicks and
  restarts in any order, the score is not negative: \<open>registerHit\<close> is the only writer
  besides \<open>startGame\<close>, and it stores \<open>max 0\<close> of the new value.
\<close>

theorem score_never_negative: "reachable s \<Longrightarrow> 0 \<le> score s"
  using reachable_sessionInv by (simp add: sessionInv_def)

theorem score_never_negative_witness: "reachable startedGame \<and> 0 \<le> score startedGame"
  using score_never_negative [OF reachable_startedGame] reachable_startedGame by simp

section \<open>Checkpoints\<close>






section \<open>The pending window\<close>







section \<open>Spawning\<close>


lemma pickMoleType_draw:
  "owp (pickMoleType s) (\<lambda>(t, s'). sameClocks s s' \<and> rngCount s' = rngCount s + 1
                            \<and> nextSpawnAtMs s' = nextSpawnAtMs s)"
  by (simp add: pickMoleType_def nextRandom_def Let_def owp_case_option sameClocks_def
        split: option.split)

lemma buildMole_idle:
  assumes "buildMole profile c ty s = (m, s')"
  shows "idleDurationMs m =
           randomBetween (rng s (rngCount s + 1)) (holdMinMs profile) (holdMaxMs profile)
             * idleScaleFor ty s
         \<and> moleType m = ty \<and> phase m = Pop \<and> activeMoles s' = activeMoles s
         \<and> nextSpawnAtMs s' = nextSpawnAtMs s"
  using assms
  by (auto simp: buildMole_def nextRandom_def pickAppearanceSprite_def Let_def
        split: prod.splits if_splits)

lemma spawned_step:
  assumes "buildMole profile c ty s3 = (m, s4)"
    and "sameClocks s s3" and "rngCount s3 = Suc (Suc (rngCount s))"
    and "nextSpawnAtMs s3 =
           (if int (length (activeMoles s)) < concurrentMin profile - 1 then elapsedMs s
            else nextSpawnAtMs s)"
  shows "spawned profile s (pushMole m s4)"
proof -
  have i: "idleScaleFor t s3 = idleScaleFor t s" for t
    using assms(2) by (simp add: idleScaleFor_def getSlowFactor_def sameClocks_def)
  have e: "elapsedMs s4 = elapsedMs s3"
    using assms(1)
    by (auto simp: buildMole_def nextRandom_def pickAppearanceSprite_def Let_def
          split: prod.splits if_splits)
  from buildMole_idle [OF assms(1)] assms(2,3,4) i e show ?thesis
    by (simp add: spawned_def pushMole_def Let_def sameClocks_def numeral_3_eq_3)
qed

lemma spawnSingleMole_spawned:
  "owp (spawnSingleMole profile s) (\<lambda>(b, s'). b \<longrightarrow> spawned profile s s')"
  unfolding spawnSingleMole_def
  apply (simp add: Let_def owp_if owp_case_prod split: prod.split)
  apply (intro conjI impI)
   apply (rule owpI, clarsimp)
   apply (rule owp_mono [OF pickMoleType_draw])
   apply (clarsimp simp: nextRandom_def)
   apply (erule spawned_step)
     apply (simp_all add: sameClocks_def)[3]
  apply (rule owpI, clarsimp)
  apply (rule owp_mono [OF pickMoleType_draw])
  apply (clarsimp simp: nextRandom_def)
  apply (erule spawned_step)
    apply (simp_all add: sameClocks_def)
  done

lemma reachable_runEvents:
  "reachable s \<Longrightarrow> runEvents es s = Some s' \<Longrightarrow> reachable s'"
proof (induction es arbitrary: s)
  case Nil
  then show ?case by simp
next
  case (Cons e es)
  from Cons.prems(2) obtain t where t: "handleEvent e s = Some t" and r: "runEvents es t = Some s'"
    by (auto simp: bind_eq_Some_conv)
  from Cons.prems(1) t have "reachable t" by (rule reachable_event)
  then show ?case using r by (rule Cons.IH)
qed


lemma firstSpawn_summary:
  "map_option
     (\<lambda>t. (getDifficultyProfile t, length (activeMoles t),
           map_option (\<lambda>u. (length (activeMoles u), elapsedMs u, nextSpawnAtMs u)) (tick 336 t),
           getDifficultyProfile (advanceClock 80 t),
           map_option (\<lambda>u. length (activeMoles u)) (spawnMolesIfNeeded (advanceClock 80 t))))
     (runEvents firstSpawnEvents (newGame 360 640 0 zeroRng))
   = Some (Some level1Profile, 0, Some (1, 320, 5812 / 5), Some level1Profile, Some 1)"
  by code_simp

lemma preSpawn_facts:
  "runEvents firstSpawnEvents (newGame 360 640 0 zeroRng) = Some preSpawn"
  "getDifficultyProfile preSpawn = Some level1Profile"
  "length (activeMoles preSpawn) = 0"
  "tick 336 preSpawn = Some afterSpawn"
  "length (activeMoles afterSpawn) = 1"
  "elapsedMs afterSpawn = 320"
  "nextSpawnAtMs afterSpawn = 5812 / 5"
  "getDifficultyProfile (advanceClock 80 preSpawn) = Some level1Profile"
  "spawnMolesIfNeeded (advanceClock 80 preSpawn)
     = Some (the (spawnMolesIfNeeded (advanceClock 80 preSpawn)))"
  "length (activeMoles (the (spawnMolesIfNeeded (advanceClock 80 preSpawn)))) = 1"
  using firstSpawn_summary
  by (auto simp: preSpawn_def afterSpawn_def)

lemma reachable_preSpawn: "reachable preSpawn"
  using reachable_new preSpawn_facts(1) by (rule reachable_runEvents)






text \<open>
  C3 as stated fails. In the frame that takes a fresh session from 240 ms to 320 ms, past
  the spawn time 300 ms, no mole is up and the floor of the profile is 1; a mole is
  created, and the next spawn time is \<open>300 + 980 * 0.88 = 1162.4\<close>, not the current 320.
\<close>

theorem floor_spawn_not_immediate_counterexample:
  "reachable preSpawn
   \<and> getDifficultyProfile preSpawn = Some level1Profile
   \<and> int (length (activeMoles preSpawn)) < concurrentMin level1Profile
   \<and> tick 336 preSpawn = Some afterSpawn
   \<and> length (activeMoles afterSpawn) = length (activeMoles preSpawn) + 1
   \<and> elapsedMs afterSpawn = 320
   \<and> nextSpawnAtMs afterSpawn = 5812 / 5
   \<and> nextSpawnAtMs afterSpawn \<noteq> elapsedMs afterSpawn"
  using reachable_preSpawn preSpawn_facts
  by (simp add: level1Profile_def mkLevel_def)

text \<open>
  C3, amended. A successful \<open>spawnSingleMole\<close> moves the next spawn time to the current
  simulated time exactly when the moles, the new one counted, are still fewer than the
  floor of the profile; otherwise it leaves the next spawn time as it was.
\<close>

theorem spawn_rebases_below_floor:
  assumes "spawnSingleMole profile s = Some (True, s')"
  shows "nextSpawnAtMs s' =
           (if int (length (activeMoles s)) + 1 < concurrentMin profile then elapsedMs s
            else nextSpawnAtMs s)"
proof -
  from owpD [OF spawnSingleMole_spawned assms] have "spawned profile s s'" by simp
  then show ?thesis by (auto simp: spawned_def)
qed

lemma level4Empty_summary:
  "(getDifficultyProfile level4Sample, length (activeMoles level4Sample),
    getDifficultyProfile level4Empty, nextSpawnAtMs level4Empty, elapsedMs level4Empty,
    length (activeMoles level4Empty),
    map_option (\<lambda>p. (concurrentMin p, concurrentMax p,
                       map_option (\<lambda>(b, t). (b, nextSpawnAtMs t)) (spawnSingleMole p level4Empty)))
      (getDifficultyProfile level4Sample))
   = (Some level4Profile, 3, Some level4Profile, 95600, 94960, 0,
      Some (2, 3, Some (True, 94960)))"
  unfolding level4Profile_def by code_simp

lemma level4Empty_facts:
  "getDifficultyProfile level4Sample = Some level4Profile"
  "length (activeMoles level4Sample) = 3"
  "concurrentMin level4Profile = 2"
  "concurrentMax level4Profile = 3"
  "nextSpawnAtMs level4Empty = 95600"
  "elapsedMs level4Empty = 94960"
  "length (activeMoles level4Empty) = 0"
  "spawnSingleMole level4Profile level4Empty
     = Some (True, snd (the (spawnSingleMole level4Profile level4Empty)))"
  "nextSpawnAtMs (snd (the (spawnSingleMole level4Profile level4Empty))) = 94960"
  using level4Empty_summary by auto

theorem spawn_rebases_below_floor_witness:
  "spawnSingleMole level4Profile level4Empty
     = Some (True, snd (the (spawnSingleMole level4Profile level4Empty)))
   \<and> int (length (activeMoles level4Empty)) + 1 < concurrentMin level4Profile
   \<and> nextSpawnAtMs level4Empty = 95600
   \<and> elapsedMs level4Empty = 94960
   \<and> nextSpawnAtMs (snd (the (spawnSingleMole level4Profile level4Empty))) = 94960"
  using spawn_rebases_below_floor [OF level4Empty_facts(8)] level4Empty_facts
  by simp

section \<open>The concurrency ceiling\<close>

lemma afterCheckpoint_summary:
  "map_option (\<lambda>t. (length (activeMoles t), tierProgress t,
                     map_option concurrentMax (getDifficultyProfile t)))
     (tick 95056 level4Sample)
   = Some (3, 1002 / 25, Some 2)"
  by code_simp

lemma afterCheckpoint_facts:
  "tick 95056 level4Sample = Some afterCheckpoint"
  "length (activeMoles afterCheckpoint) = 3"
  "tierProgress afterCheckpoint = 1002 / 25"
  "getDifficultyProfile afterCheckpoint = Some (the (getDifficultyProfile afterCheckpoint))"
  "concurrentMax (the (getDifficultyProfile afterCheckpoint)) = 2"
  using afterCheckpoint_summary by (auto simp: afterCheckpoint_def)

text \<open>
  C2 as stated fails. At level 4 with tier progress 51 the ceiling is
  \<open>round (2 + 0.51) = 3\<close> and three moles are up. The frame at 95.04 s runs the
  checkpoint of an interval with six misses; tier progress falls to 40.08, the ceiling to
  \<open>round (2 + 0.4008) = 2\<close>, and the three moles are still up.
\<close>

theorem ceiling_drop_counterexample:
  "getDifficultyProfile level4Sample = Some level4Profile
   \<and> int (length (activeMoles level4Sample)) \<le> concurrentMax level4Profile
   \<and> tick 95056 level4Sample = Some afterCheckpoint
   \<and> tierProgress level4Sample = 51
   \<and> tierProgress afterCheckpoint = 1002 / 25
   \<and> length (activeMoles afterCheckpoint) = 3
   \<and> getDifficultyProfile afterCheckpoint = Some (the (getDifficultyProfile afterCheckpoint))
   \<and> concurrentMax (the (getDifficultyProfile afterCheckpoint)) = 2
   \<and> \<not> int (length (activeMoles afterCheckpoint))
          \<le> concurrentMax (the (getDifficultyProfile afterCheckpoint))"
  using afterCheckpoint_facts level4Empty_facts(1,2,4)
  by (simp add: level4Sample_def)

text \<open>
  C2, amended. \<open>spawnMolesIfNeeded\<close> creates moles only while their number is below the
  ceiling of the profile it computed, so after it the number is at most the larger of the
  number before and that ceiling; a ceiling is at most 3; and in every state a session can
  reach at most three moles are up. Nothing removes a mole when the ceiling drops.
\<close>

theorem spawn_respects_ceiling:
  assumes "getDifficultyProfile s = Some p"
    and "spawnMolesIfNeeded s = Some s'"
    and "reachable t"
  shows "int (length (activeMoles s')) \<le> max (int (length (activeMoles s))) (concurrentMax p)
         \<and> concurrentMax p \<le> 3
         \<and> length (activeMoles t) \<le> 3"
proof -
  have "int (length (activeMoles s')) \<le> max (int (length (activeMoles s))) (concurrentMax p)"
  proof (cases "cells s = []")
    case True
    with assms(2) show ?thesis by (simp add: spawnMolesIfNeeded_def)
  next
    case False
    with assms(1,2) have "spawnLoop p s = Some s'"
      by (simp add: spawnMolesIfNeeded_def)
    from owpD [OF spawnLoop_countWithin this] show ?thesis
      by (simp add: countWithin_def)
  qed
  moreover from getDifficultyProfile_bounds [OF assms(1)] have "concurrentMax p \<le> 3" by simp
  moreover from reachable_sessionInv [OF assms(3)] have "length (activeMoles t) \<le> 3"
    by (simp add: sessionInv_def)
  ultimately show ?thesis by blast
qed

theorem spawn_respects_ceiling_witness:
  "getDifficultyProfile (advanceClock 80 preSpawn) = Some level1Profile
   \<and> spawnMolesIfNeeded (advanceClock 80 preSpawn)
        = Some (the (spawnMolesIfNeeded (advanceClock 80 preSpawn)))
   \<and> reachable preSpawn
   \<and> length (activeMoles (advanceClock 80 preSpawn)) = 0
   \<and> length (activeMoles (the (spawnMolesIfNeeded (advanceClock 80 preSpawn)))) = 1
   \<and> concurrentMax level1Profile = 1
   \<and> length (activeMoles preSpawn) \<le> 3"
  using spawn_respects_ceiling [OF preSpawn_facts(8) preSpawn_facts(9) reachable_preSpawn]
    preSpawn_facts reachable_preSpawn
  by (simp add: advanceClock_def level1Profile_def mkLevel_def)

end
